theory Spec2Isabelle
  imports Main "HOL-Library.Sublist"
begin

section \<open>Scene3D: the scene controller (src/3d/Scene3D.ts)\<close>

text \<open>
  Only the fields that the toggle operations, the camera-control handlers, the constructor,
  \<open>initialize\<close> and \<open>dispose\<close> read or write on behalf of those operations are kept.
  A three.js object is represented by its \<open>visible\<close> flag, a DOM overlay by the value of
  \<open>style.display\<close>. A field typed \<open>T | null\<close> is an option.
\<close>

type_synonym node = nat

record Object3D =
  visible :: bool

record Overlay =
  display :: string

text \<open>
  The optional constructor argument \<open>onFirstInteraction\<close> is a closure. A closure is
  represented by a name; invoking it is reported in the result of the handler that invokes
  it. A call of a closure, as of any function, either returns or throws.
\<close>

datatype callback = Callback node

datatype outcome = Returns | Throws

record Scene3D =
  earthPole :: "Object3D option"
  equatorLine :: "Object3D option"
  longitudeLinesGroup :: "Object3D option"
  latitudeLinesGroup :: "Object3D option"
  stats :: "Overlay option"
  rendererInfoDiv :: "Overlay option"
  autoRotateEnabled :: bool
  autoRotateAllowed :: bool
  inactivityTimeoutId :: "nat option"
  firstInteractionDone :: bool
  debugInfoDiv :: "Overlay option"
  debugInfoVisible :: bool
  primeMeridianGroup :: "Object3D option"
  antimeridianLine :: "Object3D option"
  onFirstInteraction :: "callback option"
  pendingTimeouts :: "nat list"
  nextTimeoutId :: nat

text \<open>
  \<open>pendingTimeouts\<close> and \<open>nextTimeoutId\<close> stand for the window's timer table as far as
  this scene uses it: \<open>window.setTimeout\<close> returns a fresh identifier and
  \<open>clearTimeout\<close> removes one.
\<close>

definition Scene3D_new :: "callback option \<Rightarrow> Scene3D" where
  "Scene3D_new cb =
     \<lparr> earthPole = None, equatorLine = None, longitudeLinesGroup = None,
       latitudeLinesGroup = None,
       stats = Some \<lparr> display = ''none'' \<rparr>,
       rendererInfoDiv = Some \<lparr> display = ''none'' \<rparr>,
       autoRotateEnabled = True, autoRotateAllowed = True,
       inactivityTimeoutId = None, firstInteractionDone = False,
       debugInfoDiv = Some \<lparr> display = ''none'' \<rparr>, debugInfoVisible = False,
       primeMeridianGroup = None, antimeridianLine = None,
       onFirstInteraction = cb, pendingTimeouts = [], nextTimeoutId = 1 \<rparr>"

definition initialize :: "Scene3D \<Rightarrow> Scene3D" where
  "initialize sc =
     sc \<lparr> longitudeLinesGroup := Some \<lparr> visible = True \<rparr>,
          latitudeLinesGroup := Some \<lparr> visible = True \<rparr>,
          earthPole := Some \<lparr> visible = True \<rparr>,
          equatorLine := Some \<lparr> visible = True \<rparr>,
          antimeridianLine := Some \<lparr> visible = True \<rparr>,
          primeMeridianGroup := Some \<lparr> visible = True \<rparr> \<rparr>"

definition clearTimeout :: "nat \<Rightarrow> Scene3D \<Rightarrow> Scene3D" where
  "clearTimeout t sc = sc \<lparr> pendingTimeouts := removeAll t (pendingTimeouts sc) \<rparr>"

text \<open>
  \<open>handleControlStart\<close>. The argument \<open>oc\<close> is what the call of the callback does, should
  the handler make it. The result holds the callback invoked, if any, and how the handler
  itself ends: if the callback throws, the handler ends there, before the assignment to
  \<open>firstInteractionDone\<close>, and the exception leaves the handler.
\<close>

definition handleControlStart :: "outcome \<Rightarrow> Scene3D \<Rightarrow> (callback option \<times> outcome) \<times> Scene3D" where
  "handleControlStart oc sc =
     (let sc1 = sc \<lparr> autoRotateEnabled := False \<rparr>;
          sc2 = (case inactivityTimeoutId sc1 of
                   Some t \<Rightarrow> (clearTimeout t sc1) \<lparr> inactivityTimeoutId := None \<rparr>
                 | None \<Rightarrow> sc1)
      in if \<not> firstInteractionDone sc2 \<and> onFirstInteraction sc2 \<noteq> None
         then (case oc of
                 Throws \<Rightarrow> ((onFirstInteraction sc2, Throws), sc2)
               | Returns \<Rightarrow>
                   ((onFirstInteraction sc2, Returns), sc2 \<lparr> firstInteractionDone := True \<rparr>))
         else ((None, Returns), sc2))"

definition handleControlEnd :: "Scene3D \<Rightarrow> Scene3D" where
  "handleControlEnd sc =
     (let sc1 = (case inactivityTimeoutId sc of
                   Some t \<Rightarrow> clearTimeout t sc
                 | None \<Rightarrow> sc)
      in if autoRotateAllowed sc1
         then sc1 \<lparr> inactivityTimeoutId := Some (nextTimeoutId sc1),
                    pendingTimeouts := pendingTimeouts sc1 @ [nextTimeoutId sc1],
                    nextTimeoutId := Suc (nextTimeoutId sc1) \<rparr>
         else sc1)"

text \<open>The timer set by \<open>handleControlEnd\<close> runs out: its body re-enables auto-rotation.\<close>

definition timeoutFired :: "nat \<Rightarrow> Scene3D \<Rightarrow> Scene3D" where
  "timeoutFired t sc =
     (if t \<in> set (pendingTimeouts sc)
      then sc \<lparr> pendingTimeouts := removeAll t (pendingTimeouts sc),
                autoRotateEnabled := True \<rparr>
      else sc)"

definition togglePoleVisibility :: "bool \<Rightarrow> Scene3D \<Rightarrow> Scene3D" where
  "togglePoleVisibility v sc =
     (case earthPole sc of
        Some ob \<Rightarrow> sc \<lparr> earthPole := Some (ob \<lparr> visible := v \<rparr>) \<rparr>
      | None \<Rightarrow> sc)"

definition toggleEquatorVisibility :: "bool \<Rightarrow> Scene3D \<Rightarrow> Scene3D" where
  "toggleEquatorVisibility v sc =
     (case equatorLine sc of
        Some ob \<Rightarrow> sc \<lparr> equatorLine := Some (ob \<lparr> visible := v \<rparr>) \<rparr>
      | None \<Rightarrow> sc)"

definition toggleLongitudeLinesVisibility :: "bool \<Rightarrow> Scene3D \<Rightarrow> Scene3D" where
  "toggleLongitudeLinesVisibility v sc =
     (case longitudeLinesGroup sc of
        Some ob \<Rightarrow> sc \<lparr> longitudeLinesGroup := Some (ob \<lparr> visible := v \<rparr>) \<rparr>
      | None \<Rightarrow> sc)"

definition toggleLatitudeLinesVisibility :: "bool \<Rightarrow> Scene3D \<Rightarrow> Scene3D" where
  "toggleLatitudeLinesVisibility v sc =
     (case latitudeLinesGroup sc of
        Some ob \<Rightarrow> sc \<lparr> latitudeLinesGroup := Some (ob \<lparr> visible := v \<rparr>) \<rparr>
      | None \<Rightarrow> sc)"

definition toggleStatsVisibility :: "bool \<Rightarrow> Scene3D \<Rightarrow> Scene3D" where
  "toggleStatsVisibility v sc =
     (case stats sc of
        Some d \<Rightarrow> sc \<lparr> stats := Some (d \<lparr> display := (if v then ''block'' else ''none'') \<rparr>) \<rparr>
      | None \<Rightarrow> sc)"

definition toggleRendererInfoVisibility :: "bool \<Rightarrow> Scene3D \<Rightarrow> Scene3D" where
  "toggleRendererInfoVisibility v sc =
     (case rendererInfoDiv sc of
        Some d \<Rightarrow>
          sc \<lparr> rendererInfoDiv := Some (d \<lparr> display := (if v then ''block'' else ''none'') \<rparr>) \<rparr>
      | None \<Rightarrow> sc)"

definition toggleAutoRotate :: "bool \<Rightarrow> Scene3D \<Rightarrow> Scene3D" where
  "toggleAutoRotate en sc = sc \<lparr> autoRotateAllowed := en, autoRotateEnabled := en \<rparr>"

definition toggleDebugInfo :: "bool \<Rightarrow> Scene3D \<Rightarrow> Scene3D" where
  "toggleDebugInfo v sc =
     (let sc1 = sc \<lparr> debugInfoVisible := v \<rparr>
      in case debugInfoDiv sc1 of
           Some d \<Rightarrow>
             sc1 \<lparr> debugInfoDiv := Some (d \<lparr> display := (if v then ''block'' else ''none'') \<rparr>) \<rparr>
         | None \<Rightarrow> sc1)"

definition togglePrimeMeridianVisibility :: "bool \<Rightarrow> Scene3D \<Rightarrow> Scene3D" where
  "togglePrimeMeridianVisibility v sc =
     (case primeMeridianGroup sc of
        Some ob \<Rightarrow> sc \<lparr> primeMeridianGroup := Some (ob \<lparr> visible := v \<rparr>) \<rparr>
      | None \<Rightarrow> sc)"

definition toggleAntimeridianVisibility :: "bool \<Rightarrow> Scene3D \<Rightarrow> Scene3D" where
  "toggleAntimeridianVisibility v sc =
     (case antimeridianLine sc of
        Some ob \<Rightarrow> sc \<lparr> antimeridianLine := Some (ob \<lparr> visible := v \<rparr>) \<rparr>
      | None \<Rightarrow> sc)"

text \<open>
  \<open>dispose\<close>: the pending inactivity timer is cleared, and the three overlays, which the
  constructor appended to the container, are removed from it and their fields set to null.
  The meshes and groups are disposed of but their fields keep the references.
\<close>

definition dispose :: "Scene3D \<Rightarrow> Scene3D" where
  "dispose sc =
     (let sc1 = (case inactivityTimeoutId sc of
                   Some t \<Rightarrow> (clearTimeout t sc) \<lparr> inactivityTimeoutId := None \<rparr>
                 | None \<Rightarrow> sc)
      in sc1 \<lparr> stats := None, rendererInfoDiv := None, debugInfoDiv := None \<rparr>)"

text \<open>
  What can happen to a scene that has been constructed and not disposed of: the two
  camera-control events the constructor listens to, a timer running out, and the public
  methods. A \<open>controlstart\<close> event comes with what the first-interaction callback does if
  it is called at that event.
\<close>

datatype scene_event =
    ControlStart outcome
  | ControlEnd
  | TimeoutFired nat
  | Initialize
  | TogglePole bool
  | ToggleEquator bool
  | ToggleLongitudeLines bool
  | ToggleLatitudeLines bool
  | ToggleStats bool
  | ToggleRendererInfo bool
  | ToggleAutoRotate bool
  | ToggleDebugInfo bool
  | TogglePrimeMeridian bool
  | ToggleAntimeridian bool

text \<open>
  One event. The first component of the result is the first-interaction callback that was
  invoked, if any, with the way the handler or method ended.
\<close>

fun scene_step :: "Scene3D \<Rightarrow> scene_event \<Rightarrow> (callback option \<times> outcome) \<times> Scene3D" where
  "scene_step sc (ControlStart oc) = handleControlStart oc sc"
| "scene_step sc ControlEnd = ((None, Returns), handleControlEnd sc)"
| "scene_step sc (TimeoutFired t) = ((None, Returns), timeoutFired t sc)"
| "scene_step sc Initialize = ((None, Returns), initialize sc)"
| "scene_step sc (TogglePole v) = ((None, Returns), togglePoleVisibility v sc)"
| "scene_step sc (ToggleEquator v) = ((None, Returns), toggleEquatorVisibility v sc)"
| "scene_step sc (ToggleLongitudeLines v) =
     ((None, Returns), toggleLongitudeLinesVisibility v sc)"
| "scene_step sc (ToggleLatitudeLines v) =
     ((None, Returns), toggleLatitudeLinesVisibility v sc)"
| "scene_step sc (ToggleStats v) = ((None, Returns), toggleStatsVisibility v sc)"
| "scene_step sc (ToggleRendererInfo v) = ((None, Returns), toggleRendererInfoVisibility v sc)"
| "scene_step sc (ToggleAutoRotate v) = ((None, Returns), toggleAutoRotate v sc)"
| "scene_step sc (ToggleDebugInfo v) = ((None, Returns), toggleDebugInfo v sc)"
| "scene_step sc (TogglePrimeMeridian v) =
     ((None, Returns), togglePrimeMeridianVisibility v sc)"
| "scene_step sc (ToggleAntimeridian v) = ((None, Returns), toggleAntimeridianVisibility v sc)"

text \<open>
  A sequence of events. An exception that leaves a handler is reported by the browser and
  the scene stays in use, so the run goes on. The list records, event by event, the
  callback invoked.
\<close>

fun scene_run :: "Scene3D \<Rightarrow> scene_event list \<Rightarrow> callback option list \<times> Scene3D" where
  "scene_run sc [] = ([], sc)"
| "scene_run sc (e # es) =
     (let (c, sc1) = scene_step sc e;
          (cs, sc2) = scene_run sc1 es
      in (fst c # cs, sc2))"

text \<open>
  What the first-interaction contract prescribes for a sequence of events: the callback at
  the first \<open>controlstart\<close>, nothing anywhere else. The flag says whether a
  \<open>controlstart\<close> has been seen.
\<close>

fun is_ControlStart :: "scene_event \<Rightarrow> bool" where
  "is_ControlStart (ControlStart oc) = True"
| "is_ControlStart e = False"

fun first_interaction_only :: "callback \<Rightarrow> bool \<Rightarrow> scene_event list \<Rightarrow> callback option list" where
  "first_interaction_only cb seen [] = []"
| "first_interaction_only cb seen (e # es) =
     (if is_ControlStart e \<and> \<not> seen then Some cb # first_interaction_only cb True es
      else None # first_interaction_only cb seen es)"

section \<open>HomePage and NotFoundPage (the two implementations of Page)\<close>

text \<open>
  The six checkboxes that \<open>HomePage.create\<close> writes into the sidebars, by element id:
  show-pole-checkbox, show-equator-checkbox, show-longitude-lines-checkbox,
  show-latitude-lines-checkbox, show-stats-checkbox, show-renderer-info-checkbox.
\<close>

datatype checkbox =
    ShowPole
  | ShowEquator
  | ShowLongitudeLines
  | ShowLatitudeLines
  | ShowStats
  | ShowRendererInfo

text \<open>
  The root element of a mounted home page: its identity as a DOM node, the \<open>checked\<close>
  property of each checkbox, and the \<open>change\<close> listeners that \<open>initSceneControls\<close> has added,
  each named by the checkbox it was added to. The sidebar collapse buttons of
  \<open>initSidebarToggles\<close> only change CSS classes and are left out.
\<close>

record home_element =
  he_node :: node
  checked :: "checkbox \<Rightarrow> bool"
  change_listeners :: "checkbox list"

text \<open>
  \<open>hp_disposed\<close> is not a field of the source. \<open>destroy\<close> calls \<open>dispose\<close> on the scene
  and then lets go of it; the field keeps the scenes so disposed of, as \<open>dispose\<close> left
  them, so that the effect of \<open>destroy\<close> stays visible in the state.
\<close>

record HomePage =
  hp_element :: "home_element option"
  hp_scene :: "Scene3D option"
  hp_disposed :: "Scene3D list"

record NotFoundPage =
  nf_element :: "node option"

text \<open>
  A method call on the scene controller: the call is written to the log and applied to the
  scene by \<open>scene_step\<close>.
\<close>

definition call :: "scene_event \<Rightarrow> scene_event list \<times> Scene3D \<Rightarrow> scene_event list \<times> Scene3D" where
  "call e ls = (fst ls @ [e], snd (scene_step (snd ls) e))"

text \<open>The call that the \<open>change\<close> listener of a checkbox makes, given \<open>checkbox.checked\<close>.\<close>

fun listener_call :: "checkbox \<Rightarrow> bool \<Rightarrow> scene_event" where
  "listener_call ShowPole v = TogglePole v"
| "listener_call ShowEquator v = ToggleEquator v"
| "listener_call ShowLongitudeLines v = ToggleLongitudeLines v"
| "listener_call ShowLatitudeLines v = ToggleLatitudeLines v"
| "listener_call ShowStats v = ToggleStats v"
| "listener_call ShowRendererInfo v = ToggleRendererInfo v"

text \<open>
  \<open>initScene\<close>: the markup always holds #scene-container and .canvas-overlay, so both
  \<open>querySelector\<close> calls succeed whenever the element exists. The callback passed to the
  scene fades the overlay of this element.
\<close>

definition initScene :: "HomePage \<Rightarrow> HomePage" where
  "initScene hp =
     (case hp_element hp of
        None \<Rightarrow> hp
      | Some e \<Rightarrow>
          hp \<lparr> hp_scene := Some (initialize (Scene3D_new (Some (Callback (he_node e))))) \<rparr>)"

text \<open>
  \<open>initSceneControls\<close>: returns, with the page, the calls it made on the scene controller,
  in order.
\<close>

definition initSceneControls :: "HomePage \<Rightarrow> scene_event list \<times> HomePage" where
  "initSceneControls hp =
     (case hp_element hp of
        None \<Rightarrow> ([], hp)
      | Some e \<Rightarrow>
         (case hp_scene hp of
            None \<Rightarrow> ([], hp)
          | Some s \<Rightarrow>
             (let e1 = e \<lparr> change_listeners := change_listeners e @
                          [ShowPole, ShowEquator, ShowLongitudeLines, ShowLatitudeLines,
                           ShowStats, ShowRendererInfo] \<rparr>;
                  r1 = call (TogglePole (checked e1 ShowPole)) ([], s);
                  r2 = call (ToggleEquator (checked e1 ShowEquator)) r1;
                  r3 = call (ToggleLongitudeLines (checked e1 ShowLongitudeLines)) r2;
                  r4 = call (ToggleLatitudeLines (checked e1 ShowLatitudeLines)) r3;
                  r5 = call (ToggleStats (checked e1 ShowStats)) r4;
                  r6 = call (ToggleRendererInfo (checked e1 ShowRendererInfo)) r5
              in (fst r6, hp \<lparr> hp_element := Some e1, hp_scene := Some (snd r6) \<rparr>))))"

text \<open>
  \<open>create\<close>: \<open>n\<close> is the node that \<open>document.createElement\<close> returns. Every checkbox
  of the markup carries the \<open>checked\<close> attribute.
\<close>

definition HomePage_create :: "node \<Rightarrow> HomePage \<Rightarrow> scene_event list \<times> HomePage" where
  "HomePage_create n hp =
     initSceneControls
       (initScene
          (hp \<lparr> hp_element :=
                  Some \<lparr> he_node = n, checked = (\<lambda>c. True), change_listeners = [] \<rparr> \<rparr>))"

text \<open>
  \<open>destroy\<close>: the scene, if any, is disposed of and the field set to null; the element
  is dropped.
\<close>

definition HomePage_destroy :: "HomePage \<Rightarrow> HomePage" where
  "HomePage_destroy hp =
     (let hp1 = (case hp_scene hp of
                   Some s \<Rightarrow>
                     hp \<lparr> hp_disposed := hp_disposed hp @ [dispose s], hp_scene := None \<rparr>
                 | None \<Rightarrow> hp)
      in hp1 \<lparr> hp_element := None \<rparr>)"

definition HomePage_getTitle :: "HomePage \<Rightarrow> string" where
  "HomePage_getTitle hp = ''3D Experience | Home''"

text \<open>
  One \<open>change\<close> listener runs: \<open>this.scene?.toggle...(checkbox.checked)\<close>. The call is made,
  and logged, only if the scene is not null.
\<close>

definition run_listener :: "checkbox \<Rightarrow> HomePage \<Rightarrow> scene_event list \<times> HomePage" where
  "run_listener l hp =
     (case hp_scene hp of
        None \<Rightarrow> ([], hp)
      | Some s \<Rightarrow>
         (case hp_element hp of
            None \<Rightarrow> ([], hp)
          | Some e \<Rightarrow>
              (let r = call (listener_call l (checked e l)) ([], s)
               in (fst r, hp \<lparr> hp_scene := Some (snd r) \<rparr>))))"

fun run_listeners :: "checkbox list \<Rightarrow> HomePage \<Rightarrow> scene_event list \<times> HomePage" where
  "run_listeners [] hp = ([], hp)"
| "run_listeners (l # ls) hp =
     (let (cs1, hp1) = run_listener l hp;
          (cs2, hp2) = run_listeners ls hp1
      in (cs1 @ cs2, hp2))"

text \<open>
  The user clicks checkbox \<open>c\<close> of the page's element: the browser flips \<open>checked\<close>, then
  dispatches \<open>change\<close> to the listeners added to that checkbox. The result holds the calls
  made on the scene controller.
\<close>

definition change_event :: "checkbox \<Rightarrow> HomePage \<Rightarrow> scene_event list \<times> HomePage" where
  "change_event c hp =
     (case hp_element hp of
        None \<Rightarrow> ([], hp)
      | Some e \<Rightarrow>
         (let e1 = e \<lparr> checked := (checked e)(c := \<not> checked e c) \<rparr>
          in run_listeners (filter (\<lambda>l. l = c) (change_listeners e1))
               (hp \<lparr> hp_element := Some e1 \<rparr>)))"

fun change_events :: "checkbox list \<Rightarrow> HomePage \<Rightarrow> HomePage" where
  "change_events [] hp = hp"
| "change_events (c # cs) hp = change_events cs (snd (change_event c hp))"

definition NotFoundPage_create :: "node \<Rightarrow> NotFoundPage \<Rightarrow> NotFoundPage" where
  "NotFoundPage_create n nf = nf \<lparr> nf_element := Some n \<rparr>"

definition NotFoundPage_destroy :: "NotFoundPage \<Rightarrow> NotFoundPage" where
  "NotFoundPage_destroy nf = nf \<lparr> nf_element := None \<rparr>"

definition NotFoundPage_getTitle :: "NotFoundPage \<Rightarrow> string" where
  "NotFoundPage_getTitle nf = ''404 - Page Not Found''"

subsection \<open>The Page interface\<close>

text \<open>
  \<open>Page\<close> has the methods \<open>create\<close>, \<open>destroy\<close> and \<open>getTitle\<close>; a call through the
  interface dispatches on the class of the object. \<open>addRoute\<close> takes a class and calls its
  constructor, which has no arguments and leaves every field null.
\<close>

datatype page = Home HomePage | NotFound NotFoundPage

datatype page_class = HomePage_class | NotFoundPage_class

fun new_page :: "page_class \<Rightarrow> page" where
  "new_page HomePage_class = Home \<lparr> hp_element = None, hp_scene = None, hp_disposed = [] \<rparr>"
| "new_page NotFoundPage_class = NotFound \<lparr> nf_element = None \<rparr>"

text \<open>\<open>create\<close> returns the element it has stored in the page.\<close>

fun page_create :: "node \<Rightarrow> page \<Rightarrow> node \<times> page" where
  "page_create n (Home hp) = (n, Home (snd (HomePage_create n hp)))"
| "page_create n (NotFound nf) = (n, NotFound (NotFoundPage_create n nf))"

fun page_destroy :: "page \<Rightarrow> page" where
  "page_destroy (Home hp) = Home (HomePage_destroy hp)"
| "page_destroy (NotFound nf) = NotFound (NotFoundPage_destroy nf)"

fun page_getTitle :: "page \<Rightarrow> string" where
  "page_getTitle (Home hp) = HomePage_getTitle hp"
| "page_getTitle (NotFound nf) = NotFoundPage_getTitle nf"

text \<open>The node held in the private field \<open>element\<close> of a page.\<close>

fun page_element :: "page \<Rightarrow> node option" where
  "page_element (Home hp) = map_option he_node (hp_element hp)"
| "page_element (NotFound nf) = nf_element nf"

section \<open>Router (router/router.ts)\<close>

text \<open>
  An anchor element as the click listener finds it with \<open>target.closest('a')\<close>. The listener
  reads \<open>href\<close>, \<open>pathname\<close> and \<open>dataset.external\<close>; \<open>origin\<close> is the property of the
  same name that the browser derives from the link's address, and is what makes a link
  same-origin or cross-origin. \<open>dataset.external\<close> is undefined when the element has no
  data-external attribute, and the attribute's value otherwise.
\<close>

record anchor =
  anchor_href :: string
  anchor_origin :: string
  anchor_pathname :: string
  dataset_external :: "string option"

text \<open>
  The window and document as far as the router uses them. \<open>pushed_pathname w cur url\<close> is
  the value the browser gives to \<open>location.pathname\<close> when \<open>history.pushState\<close> is called with
  \<open>url\<close> in a document whose pathname is \<open>cur\<close>: the browser resolves \<open>url\<close> against the
  current address, and the router has no part in it, so it is a parameter; the call is
  taken to succeed. A link matched by
  \<open>.nav a\<close> is its pathname and whether it has the class \<open>active\<close>; these links lie outside
  the router's container. \<open>next_node\<close> is the supply of fresh DOM nodes.
\<close>

record window =
  location_origin :: string
  location_pathname :: string
  pushed_pathname :: "string \<Rightarrow> string \<Rightarrow> string"
  history :: "string list"
  title :: string
  scroll :: "nat \<times> nat"
  nav_links :: "(string \<times> bool) list"
  next_node :: node

type_synonym ref = nat

text \<open>The calls that a router makes on pages, on its container and on the browser.\<close>

datatype event =
    EvConstruct page_class ref
  | EvPushState string
  | EvDestroy ref
  | EvClear
  | EvCreate ref node
  | EvAppend node
  | EvTitle string
  | EvScrollTo nat nat

text \<open>
  A router with its surroundings. Page objects live in \<open>heap\<close>, and \<open>routes\<close> and
  \<open>currentPage\<close> hold references into it, since the route table and \<open>currentPage\<close> may
  refer to the same object. \<open>container\<close> is the list of children of the container element.
  \<open>trace\<close> records the calls made so far.
\<close>

record state =
  routes :: "string \<rightharpoonup> ref"
  container :: "node list"
  currentPage :: "ref option"
  heap :: "ref \<rightharpoonup> page"
  next_ref :: ref
  win :: window
  trace :: "event list"

definition Router_new :: "node list \<Rightarrow> window \<Rightarrow> state" where
  "Router_new c w =
     \<lparr> routes = Map.empty, container = c, currentPage = None, heap = Map.empty,
       next_ref = 0, win = w, trace = [] \<rparr>"

definition addRoute :: "string \<Rightarrow> page_class \<Rightarrow> state \<Rightarrow> state" where
  "addRoute path pageClass st =
     st \<lparr> heap := (heap st)(next_ref st \<mapsto> new_page pageClass),
          routes := (routes st)(path \<mapsto> next_ref st),
          next_ref := Suc (next_ref st),
          trace := trace st @ [EvConstruct pageClass (next_ref st)] \<rparr>"

text \<open>
  The cleanup of the current page, \<open>if (this.currentPage) this.currentPage.destroy()\<close>.
\<close>

definition destroy_current :: "state \<Rightarrow> state" where
  "destroy_current st =
     (case currentPage st of
        None \<Rightarrow> st
      | Some c \<Rightarrow>
         (case heap st c of
            None \<Rightarrow> st
          | Some pg \<Rightarrow>
              st \<lparr> heap := (heap st)(c \<mapsto> page_destroy pg),
                   trace := trace st @ [EvDestroy c] \<rparr>))"

text \<open>The body of \<open>if (page) { ... }\<close> after the cleanup, for the page at reference \<open>r\<close>.\<close>

definition mount :: "ref \<Rightarrow> state \<Rightarrow> state" where
  "mount r st =
     (case heap st r of
        None \<Rightarrow> st
      | Some pg \<Rightarrow>
         (let st1 = st \<lparr> container := [], trace := trace st @ [EvClear] \<rparr>;
              n = next_node (win st1);
              (pageElement, pg1) = page_create n pg;
              st2 = st1 \<lparr> heap := (heap st1)(r \<mapsto> pg1),
                          win := (win st1) \<lparr> next_node := Suc n \<rparr>,
                          trace := trace st1 @ [EvCreate r pageElement] \<rparr>;
              st3 = st2 \<lparr> container := container st2 @ [pageElement],
                          trace := trace st2 @ [EvAppend pageElement] \<rparr>;
              st4 = st3 \<lparr> currentPage := Some r \<rparr>;
              st5 = st4 \<lparr> win := (win st4) \<lparr> title := page_getTitle pg1 \<rparr>,
                          trace := trace st4 @ [EvTitle (page_getTitle pg1)] \<rparr>
          in st5 \<lparr> win := (win st5) \<lparr> scroll := (0, 0) \<rparr>,
                   trace := trace st5 @ [EvScrollTo 0 0] \<rparr>))"

text \<open>The route lookup: the exact entry, else the entry of the wildcard.\<close>

definition find_page :: "state \<Rightarrow> ref option" where
  "find_page st =
     (case routes st (location_pathname (win st)) of
        Some r \<Rightarrow> Some r
      | None \<Rightarrow> routes st ''*'')"

definition handleRouteChange :: "state \<Rightarrow> state" where
  "handleRouteChange st =
     (case find_page st of
        None \<Rightarrow> st
      | Some r \<Rightarrow> mount r (destroy_current st))"

definition setupNavHighlighting :: "state \<Rightarrow> state" where
  "setupNavHighlighting st =
     st \<lparr> win := (win st) \<lparr> nav_links :=
            map (\<lambda>(href, active). (href, href = location_pathname (win st)))
                (nav_links (win st)) \<rparr> \<rparr>"

definition start :: "state \<Rightarrow> state" where
  "start st = setupNavHighlighting (handleRouteChange st)"

definition pushState :: "string \<Rightarrow> state \<Rightarrow> state" where
  "pushState url st =
     st \<lparr> win := (win st)
            \<lparr> location_pathname :=
                pushed_pathname (win st) (location_pathname (win st)) url,
              history := history (win st) @ [url] \<rparr>,
          trace := trace st @ [EvPushState url] \<rparr>"

definition navigate :: "string \<Rightarrow> state \<Rightarrow> state" where
  "navigate path st = setupNavHighlighting (handleRouteChange (pushState path st))"

text \<open>
  Back or forward in the browser: the browser has set the location to pathname \<open>p\<close> and
  fires \<open>popstate\<close>, whose listener only re-runs the resolution.
\<close>

definition popstate :: "string \<Rightarrow> state \<Rightarrow> state" where
  "popstate p st =
     handleRouteChange (st \<lparr> win := (win st) \<lparr> location_pathname := p \<rparr> \<rparr>)"

text \<open>Truthiness of \<open>dataset.external\<close>: undefined and the empty string are falsy.\<close>

fun truthy :: "string option \<Rightarrow> bool" where
  "truthy None = False"
| "truthy (Some s) = (s \<noteq> [])"

text \<open>
  The click listener on the document. The argument is the result of \<open>target.closest('a')\<close>.
  The first component of the result says whether \<open>preventDefault\<close> was called; if it was
  not, the browser carries on with its own handling of the click.
\<close>

definition click :: "anchor option \<Rightarrow> state \<Rightarrow> bool \<times> state" where
  "click target st =
     (case target of
        None \<Rightarrow> (False, st)
      | Some a \<Rightarrow>
          if prefix (location_origin (win st)) (anchor_href a) \<and> \<not> truthy (dataset_external a)
          then (True, navigate (anchor_pathname a) st)
          else (False, st))"

text \<open>What a program and a user can do with a router, and sequences of it.\<close>

datatype op =
    AddRoute string page_class
  | Start
  | Navigate string
  | Popstate string
  | Click "anchor option"

fun apply_op :: "op \<Rightarrow> state \<Rightarrow> state" where
  "apply_op (AddRoute path pageClass) st = addRoute path pageClass st"
| "apply_op Start st = start st"
| "apply_op (Navigate path) st = navigate path st"
| "apply_op (Popstate p) st = popstate p st"
| "apply_op (Click target) st = snd (click target st)"

fun run :: "op list \<Rightarrow> state \<Rightarrow> state" where
  "run [] st = st"
| "run (x # xs) st = run xs (apply_op x st)"

subsection \<open>Notions used by the properties\<close>

text \<open>The route table as a caller sees it: the page object that each path leads to.\<close>

definition route_table :: "state \<Rightarrow> (string \<rightharpoonup> page)" where
  "route_table st = (\<lambda>p. case routes st p of None \<Rightarrow> None | Some r \<Rightarrow> heap st r)"

text \<open>The events of a trace that are calls of \<open>create\<close>: the page and the element returned.\<close>

definition creates :: "event list \<Rightarrow> (ref \<times> node) list" where
  "creates t = concat (map (\<lambda>e. case e of EvCreate r n \<Rightarrow> [(r, n)] | _ \<Rightarrow> []) t)"

text \<open>
  The pages mounted into the container: a page is mounted if an element that a call of
  \<open>create\<close> on the page returned is a child of the container.
\<close>

definition is_mounted :: "state \<Rightarrow> ref \<Rightarrow> bool" where
  "is_mounted st r = list_ex (\<lambda>n. (r, n) \<in> set (creates (trace st))) (container st)"

definition mounted :: "state \<Rightarrow> ref list" where
  "mounted st = filter (is_mounted st) [0 ..< next_ref st]"

text \<open>
  The order of lifecycle calls, as a machine that reads a trace. In \<open>Idle cur\<close> no route
  change is under way and \<open>cur\<close> is the page mounted last. A \<open>destroy\<close> is accepted only on
  that page and only once; the container is cleared only after it, or when no page was
  mounted; \<open>create\<close> comes only after the clearing; the element appended is the one created.
  Any other order is rejected with \<open>None\<close>.
\<close>

datatype phase = Idle "ref option" | Destroyed | Cleared | Created ref node

fun phase_step :: "phase \<Rightarrow> event \<Rightarrow> phase option" where
  "phase_step (Idle (Some c)) (EvDestroy d) = (if d = c then Some Destroyed else None)"
| "phase_step ph (EvDestroy d) = None"
| "phase_step Destroyed EvClear = Some Cleared"
| "phase_step (Idle None) EvClear = Some Cleared"
| "phase_step ph EvClear = None"
| "phase_step Cleared (EvCreate r n) = Some (Created r n)"
| "phase_step ph (EvCreate r n) = None"
| "phase_step (Created r n) (EvAppend m) = (if m = n then Some (Idle (Some r)) else None)"
| "phase_step ph (EvAppend m) = None"
| "phase_step ph (EvConstruct cls r) = Some ph"
| "phase_step ph (EvPushState url) = Some ph"
| "phase_step ph (EvTitle t) = Some ph"
| "phase_step ph (EvScrollTo x y) = Some ph"

fun lifecycle :: "phase \<Rightarrow> event list \<Rightarrow> phase option" where
  "lifecycle ph [] = Some ph"
| "lifecycle ph (e # es) =
     (case phase_step ph e of
        None \<Rightarrow> None
      | Some ph1 \<Rightarrow> lifecycle ph1 es)"

text \<open>
  Page \<open>r\<close> is mounted with root element \<open>n\<close>: the element is the only child of the
  container, it is the element the page holds, the page is the current page and the document
  title is the page's title.
\<close>

definition mounted_as :: "ref \<Rightarrow> node \<Rightarrow> state \<Rightarrow> bool" where
  "mounted_as r n st =
     (container st = [n] \<and> currentPage st = Some r \<and>
      (case heap st r of
         None \<Rightarrow> False
       | Some pg \<Rightarrow> page_element pg = Some n \<and> title (win st) = page_getTitle pg))"

text \<open>The state with the location at pathname \<open>p\<close>.\<close>

definition at_path :: "string \<Rightarrow> state \<Rightarrow> state" where
  "at_path p st = st \<lparr> win := (win st) \<lparr> location_pathname := p \<rparr> \<rparr>"

text \<open>The \<open>checked\<close> property of a checkbox of the page's element.\<close>

definition is_checked :: "HomePage \<Rightarrow> checkbox \<Rightarrow> bool" where
  "is_checked hp c = (case hp_element hp of None \<Rightarrow> False | Some e \<Rightarrow> checked e c)"

text \<open>
  A page that holds nothing: no element and, for the home page, no scene. This is the state
  a constructor and \<open>destroy\<close> leave a page in.
\<close>

fun page_released :: "page \<Rightarrow> bool" where
  "page_released (Home hp) = (hp_element hp = None \<and> hp_scene hp = None)"
| "page_released (NotFound nf) = (nf_element nf = None)"

text \<open>How many scenes the page at a reference has disposed of.\<close>

definition disposals :: "state \<Rightarrow> ref \<Rightarrow> nat" where
  "disposals st r =
     (case heap st r of
        Some (Home hp) \<Rightarrow> length (hp_disposed hp)
      | _ \<Rightarrow> 0)"

subsection \<open>Invariants used in the proofs\<close>

text \<open>
  A home page whose element carries one listener per checkbox and whose scene exists and
  has been initialised, so that every toggle finds its object.
\<close>

definition wired :: "HomePage \<Rightarrow> bool" where
  "wired hp =
     (case hp_element hp of
        None \<Rightarrow> False
      | Some e \<Rightarrow>
          change_listeners e =
            [ShowPole, ShowEquator, ShowLongitudeLines, ShowLatitudeLines,
             ShowStats, ShowRendererInfo]
          \<and> (case hp_scene hp of
                None \<Rightarrow> False
              | Some s \<Rightarrow>
                  earthPole s \<noteq> None \<and> equatorLine s \<noteq> None
                  \<and> longitudeLinesGroup s \<noteq> None \<and> latitudeLinesGroup s \<noteq> None
                  \<and> stats s \<noteq> None \<and> rendererInfoDiv s \<noteq> None))"

text \<open>
  What holds of every state that a router reaches from a container with children \<open>c\<close>:
  references are allocated; every page but the current one holds nothing; the element of
  the current page is the container's only child and is what the last call of \<open>create\<close>
  returned; before any page is mounted the container is as it was; the elements that
  \<open>create\<close> returned are distinct nodes taken from the supply; and the trace read by
  \<open>lifecycle\<close> ends with the current page mounted. In such a state the branches of
  \<open>destroy_current\<close> and \<open>mount\<close> for a reference without an object are never taken.
\<close>

definition inv :: "node list \<Rightarrow> state \<Rightarrow> bool" where
  "inv c st \<longleftrightarrow>
     (\<forall>p r. routes st p = Some r \<longrightarrow> r < next_ref st)
     \<and> (\<forall>r. r < next_ref st \<longrightarrow> heap st r \<noteq> None)
     \<and> (\<forall>r pg. heap st r = Some pg \<longrightarrow> currentPage st \<noteq> Some r \<longrightarrow> page_released pg)
     \<and> (currentPage st = None \<longrightarrow> container st = c \<and> creates (trace st) = [])
     \<and> (\<forall>r. currentPage st = Some r \<longrightarrow>
           r < next_ref st \<and>
           (\<exists>pg n. heap st r = Some pg \<and> page_element pg = Some n \<and> container st = [n]
              \<and> creates (trace st) \<noteq> [] \<and> last (creates (trace st)) = (r, n)))
     \<and> distinct (map snd (creates (trace st)))
     \<and> (\<forall>n \<in> set (map snd (creates (trace st))). n < next_node (win st))
     \<and> lifecycle (Idle None) (trace st) = Some (Idle (currentPage st))"

subsection \<open>Concrete inputs\<close>

text \<open>
  The pathname a browser reports after \<open>pushState\<close> in a document of origin
  https://example.com, for a url made of letters, digits, dots inside names, slashes and
  spaces, without dot segments. A url of the form //example.com/path names the document's
  own host and gives that path; a url with one leading slash replaces the path; any other
  url is resolved against the directory of the current pathname; an empty url leaves the
  pathname as it is. Spaces at either end are dropped and a space inside is written
  \<open>%20\<close>.
\<close>

definition trim :: "string \<Rightarrow> string" where
  "trim u = rev (dropWhile (\<lambda>ch. ch = CHR '' '') (rev (dropWhile (\<lambda>ch. ch = CHR '' '') u)))"

definition encode_spaces :: "string \<Rightarrow> string" where
  "encode_spaces u = concat (map (\<lambda>ch. if ch = CHR '' '' then ''%20'' else [ch]) u)"

definition directory :: "string \<Rightarrow> string" where
  "directory cur = rev (dropWhile (\<lambda>ch. ch \<noteq> CHR ''/'') (rev cur))"

definition example_pushed_pathname :: "string \<Rightarrow> string \<Rightarrow> string" where
  "example_pushed_pathname cur url =
     (let u = trim url
      in if u = [] then cur
         else if prefix ''//example.com/'' u then encode_spaces (drop 13 u)
         else if take 1 u = ''/'' then encode_spaces u
         else encode_spaces (directory cur @ u))"

definition example_window :: window where
  "example_window =
     \<lparr> location_origin = ''https://example.com'', location_pathname = ''/'',
       pushed_pathname = example_pushed_pathname, history = [], title = [], scroll = (0, 7),
       nav_links = [(''/'', False)], next_node = 0 \<rparr>"

text \<open>The registrations and the start of main.ts.\<close>

definition main_ops :: "op list" where
  "main_ops = [AddRoute ''/'' HomePage_class, AddRoute ''*'' NotFoundPage_class, Start]"

text \<open>The same without the wildcard route.\<close>

definition home_only_ops :: "op list" where
  "home_only_ops = [AddRoute ''/'' HomePage_class, Start]"

text \<open>A further route whose path holds a space.\<close>

definition spaced_ops :: "op list" where
  "spaced_ops =
     [AddRoute ''/about us'' HomePage_class, AddRoute ''*'' NotFoundPage_class, Start]"

text \<open>The routes of main.ts, and after the start a second registration for the root.\<close>

definition replaced_ops :: "op list" where
  "replaced_ops =
     [AddRoute ''/'' HomePage_class, AddRoute ''*'' NotFoundPage_class, Start,
      AddRoute ''/'' NotFoundPage_class]"

text \<open>
  The document loaded from https://example.com//example.com/x, whose pathname begins with
  two slashes, with a route registered for that pathname.
\<close>

definition slashes_window :: window where
  "slashes_window = example_window \<lparr> location_pathname := ''//example.com/x'' \<rparr>"

definition slashes_ops :: "op list" where
  "slashes_ops =
     [AddRoute ''//example.com/x'' HomePage_class, AddRoute ''*'' NotFoundPage_class, Start]"

text \<open>
  A link to another host whose name begins with the name of the document's host, and a link
  to the document's own host that carries a user name.
\<close>

definition near_origin_link :: anchor where
  "near_origin_link =
     \<lparr> anchor_href = ''https://example.com.evil.io/login'',
       anchor_origin = ''https://example.com.evil.io'',
       anchor_pathname = ''/login'', dataset_external = None \<rparr>"

definition credentials_link :: anchor where
  "credentials_link =
     \<lparr> anchor_href = ''https://user@example.com/about'',
       anchor_origin = ''https://example.com'',
       anchor_pathname = ''/about'', dataset_external = None \<rparr>"

text \<open>A home page as its constructor leaves it, and a callback for the runs of a scene.\<close>

definition fresh_home :: HomePage where
  "fresh_home = \<lparr> hp_element = None, hp_scene = None, hp_disposed = [] \<rparr>"

definition example_callback :: callback where
  "example_callback = Callback 0"

section \<open>Properties of the scene controller\<close>

lemmas scene_defs =
  handleControlStart_def handleControlEnd_def timeoutFired_def initialize_def
  clearTimeout_def togglePoleVisibility_def toggleEquatorVisibility_def
  toggleLongitudeLinesVisibility_def toggleLatitudeLinesVisibility_def
  toggleStatsVisibility_def toggleRendererInfoVisibility_def toggleAutoRotate_def
  toggleDebugInfo_def togglePrimeMeridianVisibility_def toggleAntimeridianVisibility_def

lemma scene_step_callback:
  "onFirstInteraction (snd (scene_step sc e)) = onFirstInteraction sc"
  by (cases e) (simp_all add: scene_defs Let_def split: option.splits outcome.splits)

lemma scene_step_done:
  "firstInteractionDone (snd (scene_step sc e)) =
     (firstInteractionDone sc \<or> (e = ControlStart Returns \<and> onFirstInteraction sc \<noteq> None))"
  by (cases e) (auto simp add: scene_defs Let_def split: option.splits outcome.splits)

lemma scene_step_invoked:
  "fst (fst (scene_step sc e)) =
     (if is_ControlStart e \<and> \<not> firstInteractionDone sc then onFirstInteraction sc else None)"
  by (cases e)
     (auto simp add: handleControlStart_def clearTimeout_def Let_def
        split: option.splits outcome.splits)

text \<open>
  With a callback that returns whenever it is called, the scene keeps to the contract: the
  callback is invoked at the first \<open>controlstart\<close> and at no other event.
\<close>

lemma scene_run_returning:
  "onFirstInteraction sc = Some cb \<Longrightarrow> ControlStart Throws \<notin> set evs \<Longrightarrow>
     fst (scene_run sc evs) = first_interaction_only cb (firstInteractionDone sc) evs"
proof (induction evs arbitrary: sc)
  case Nil
  show ?case by simp
next
  case (Cons e evs)
  obtain c sc1 where step: "scene_step sc e = (c, sc1)" by (cases "scene_step sc e")
  have cb1: "onFirstInteraction sc1 = Some cb"
    using scene_step_callback [of sc e] step Cons.prems by simp
  have e: "e \<noteq> ControlStart Throws" using Cons.prems by auto
  have cs: "is_ControlStart e = (e = ControlStart Returns)"
    using e by (cases e) (auto intro: outcome.exhaust)
  have done1: "firstInteractionDone sc1 = (firstInteractionDone sc \<or> is_ControlStart e)"
    using scene_step_done [of sc e] step Cons.prems cs by simp
  have c: "fst c = (if is_ControlStart e \<and> \<not> firstInteractionDone sc then Some cb else None)"
    using scene_step_invoked [of sc e] step Cons.prems by simp
  have "fst (scene_run sc (e # evs)) = fst c # fst (scene_run sc1 evs)"
    using step by (simp add: case_prod_unfold Let_def)
  also have "\<dots> = fst c # first_interaction_only cb (firstInteractionDone sc1) evs"
    using Cons.IH [OF cb1] Cons.prems by simp
  finally show ?case using c done1 by auto
qed

lemma first_interaction_only_count:
  "length (filter (\<lambda>c. c \<noteq> None) (first_interaction_only cb seen evs)) \<le> (if seen then 0 else 1)"
proof (induction evs arbitrary: seen)
  case Nil
  show ?case by simp
next
  case (Cons e evs)
  show ?case
    using Cons.IH [of True] Cons.IH [of False] Cons.IH [of seen]
    by (cases seen) (simp_all split: if_splits)
qed

lemma returning_callback_once:
  assumes "ControlStart Throws \<notin> set evs"
  shows "fst (scene_run (Scene3D_new (Some cb)) evs) = first_interaction_only cb False evs"
    and "length (filter (\<lambda>c. c \<noteq> None) (fst (scene_run (Scene3D_new (Some cb)) evs))) \<le> 1"
proof -
  have cb: "onFirstInteraction (Scene3D_new (Some cb)) = Some cb"
    and nd: "firstInteractionDone (Scene3D_new (Some cb)) = False"
    by (simp_all add: Scene3D_new_def)
  show eq: "fst (scene_run (Scene3D_new (Some cb)) evs) = first_interaction_only cb False evs"
    using scene_run_returning [OF cb assms] nd by simp
  show "length (filter (\<lambda>c. c \<noteq> None) (fst (scene_run (Scene3D_new (Some cb)) evs))) \<le> 1"
    using first_interaction_only_count [of cb False evs] by (simp add: eq)
qed

text \<open>
  Claim C8 says that the callback is invoked at most once, at the first \<open>controlstart\<close>.
  \<open>handleControlStart\<close> sets \<open>firstInteractionDone\<close> after the call of the callback, so
  a callback that throws leaves the flag unset: at two \<open>controlstart\<close> events it is invoked
  twice, where the contract has one invocation.
\<close>

theorem throwing_callback_invoked_again:
  "fst (scene_run (Scene3D_new (Some example_callback))
          [ControlStart Throws, ControlEnd, ControlStart Throws])
     = [Some example_callback, None, Some example_callback]
   \<and> first_interaction_only example_callback False
          [ControlStart Throws, ControlEnd, ControlStart Throws]
     = [Some example_callback, None, None]
   \<and> length (filter (\<lambda>c. c \<noteq> None)
        (fst (scene_run (Scene3D_new (Some example_callback))
                [ControlStart Throws, ControlEnd, ControlStart Throws]))) = 2
   \<and> firstInteractionDone
        (snd (scene_run (Scene3D_new (Some example_callback))
                [ControlStart Throws, ControlEnd, ControlStart Throws])) = False"
  by (simp add: Scene3D_new_def handleControlStart_def handleControlEnd_def clearTimeout_def
        Let_def example_callback_def)

text \<open>
  Claim C10. Each of the eight visibility toggles is guarded: when the object it targets is
  null, as before \<open>initialize\<close> or after \<open>dispose\<close>, the call changes nothing. The toggles
  are total functions with no failing branch.
\<close>

theorem toggles_guarded:
  "(earthPole sc = None \<longrightarrow> togglePoleVisibility v sc = sc)
   \<and> (equatorLine sc = None \<longrightarrow> toggleEquatorVisibility v sc = sc)
   \<and> (longitudeLinesGroup sc = None \<longrightarrow> toggleLongitudeLinesVisibility v sc = sc)
   \<and> (latitudeLinesGroup sc = None \<longrightarrow> toggleLatitudeLinesVisibility v sc = sc)
   \<and> (stats sc = None \<longrightarrow> toggleStatsVisibility v sc = sc)
   \<and> (rendererInfoDiv sc = None \<longrightarrow> toggleRendererInfoVisibility v sc = sc)
   \<and> (primeMeridianGroup sc = None \<longrightarrow> togglePrimeMeridianVisibility v sc = sc)
   \<and> (antimeridianLine sc = None \<longrightarrow> toggleAntimeridianVisibility v sc = sc)"
  by (simp add: togglePoleVisibility_def toggleEquatorVisibility_def
        toggleLongitudeLinesVisibility_def toggleLatitudeLinesVisibility_def
        toggleStatsVisibility_def toggleRendererInfoVisibility_def
        togglePrimeMeridianVisibility_def toggleAntimeridianVisibility_def)

theorem toggles_guarded_witness:
  "earthPole (dispose (Scene3D_new None)) = None
   \<and> equatorLine (dispose (Scene3D_new None)) = None
   \<and> longitudeLinesGroup (dispose (Scene3D_new None)) = None
   \<and> latitudeLinesGroup (dispose (Scene3D_new None)) = None
   \<and> stats (dispose (Scene3D_new None)) = None
   \<and> rendererInfoDiv (dispose (Scene3D_new None)) = None
   \<and> primeMeridianGroup (dispose (Scene3D_new None)) = None
   \<and> antimeridianLine (dispose (Scene3D_new None)) = None
   \<and> togglePoleVisibility False (dispose (Scene3D_new None)) = dispose (Scene3D_new None)
   \<and> toggleEquatorVisibility False (dispose (Scene3D_new None)) = dispose (Scene3D_new None)
   \<and> toggleLongitudeLinesVisibility False (dispose (Scene3D_new None)) = dispose (Scene3D_new None)
   \<and> toggleLatitudeLinesVisibility False (dispose (Scene3D_new None)) = dispose (Scene3D_new None)
   \<and> toggleStatsVisibility True (dispose (Scene3D_new None)) = dispose (Scene3D_new None)
   \<and> toggleRendererInfoVisibility True (dispose (Scene3D_new None)) = dispose (Scene3D_new None)
   \<and> togglePrimeMeridianVisibility False (dispose (Scene3D_new None)) = dispose (Scene3D_new None)
   \<and> toggleAntimeridianVisibility False (dispose (Scene3D_new None)) = dispose (Scene3D_new None)"
proof -
  have none: "earthPole (dispose (Scene3D_new None)) = None"
    "equatorLine (dispose (Scene3D_new None)) = None"
    "longitudeLinesGroup (dispose (Scene3D_new None)) = None"
    "latitudeLinesGroup (dispose (Scene3D_new None)) = None"
    "stats (dispose (Scene3D_new None)) = None"
    "rendererInfoDiv (dispose (Scene3D_new None)) = None"
    "primeMeridianGroup (dispose (Scene3D_new None)) = None"
    "antimeridianLine (dispose (Scene3D_new None)) = None"
    by (simp_all add: dispose_def Scene3D_new_def)
  show ?thesis
    using none toggles_guarded [of "dispose (Scene3D_new None)" False]
      toggles_guarded [of "dispose (Scene3D_new None)" True]
    by simp
qed

section \<open>Properties of the home page\<close>

lemmas create_defs =
  HomePage_create_def initScene_def initSceneControls_def call_def Let_def

lemma create_calls:
  "fst (HomePage_create n hp) =
     [TogglePole True, ToggleEquator True, ToggleLongitudeLines True,
      ToggleLatitudeLines True, ToggleStats True, ToggleRendererInfo True]"
  by (simp add: create_defs)

lemma create_scene:
  "hp_scene (snd (HomePage_create n hp)) =
     Some (toggleRendererInfoVisibility True (toggleStatsVisibility True
       (toggleLatitudeLinesVisibility True (toggleLongitudeLinesVisibility True
         (toggleEquatorVisibility True (togglePoleVisibility True
           (initialize (Scene3D_new (Some (Callback n))))))))))"
  by (simp add: create_defs)

lemma create_scene_fields:
  "map_option earthPole (hp_scene (snd (HomePage_create n hp))) = Some (Some \<lparr> visible = True \<rparr>)"
  "map_option equatorLine (hp_scene (snd (HomePage_create n hp))) = Some (Some \<lparr> visible = True \<rparr>)"
  "map_option longitudeLinesGroup (hp_scene (snd (HomePage_create n hp)))
     = Some (Some \<lparr> visible = True \<rparr>)"
  "map_option latitudeLinesGroup (hp_scene (snd (HomePage_create n hp)))
     = Some (Some \<lparr> visible = True \<rparr>)"
  "map_option stats (hp_scene (snd (HomePage_create n hp))) = Some (Some \<lparr> display = ''block'' \<rparr>)"
  "map_option rendererInfoDiv (hp_scene (snd (HomePage_create n hp)))
     = Some (Some \<lparr> display = ''block'' \<rparr>)"
  by (simp_all add: create_defs scene_defs Scene3D_new_def)

lemma create_wired: "wired (snd (HomePage_create n hp))"
  by (simp add: create_defs wired_def scene_defs Scene3D_new_def)

lemma create_checked: "is_checked (snd (HomePage_create n hp)) c"
  by (simp add: create_defs is_checked_def)

lemma filter_listeners:
  "filter (\<lambda>l. l = c)
     [ShowPole, ShowEquator, ShowLongitudeLines, ShowLatitudeLines, ShowStats, ShowRendererInfo]
   = [c]"
  by (cases c) simp_all

text \<open>What a change of a checkbox does to a wired page.\<close>

lemma change_event_wired:
  assumes "wired hp"
  shows "fst (change_event c hp) = [listener_call c (\<not> is_checked hp c)]"
    and "hp_scene (snd (change_event c hp)) =
           map_option (\<lambda>s. snd (scene_step s (listener_call c (\<not> is_checked hp c)))) (hp_scene hp)"
    and "is_checked (snd (change_event c hp)) c = (\<not> is_checked hp c)"
    and "wired (snd (change_event c hp))"
proof -
  obtain e s where e: "hp_element hp = Some e" and s: "hp_scene hp = Some s"
    and l: "change_listeners e =
      [ShowPole, ShowEquator, ShowLongitudeLines, ShowLatitudeLines, ShowStats, ShowRendererInfo]"
    and t: "earthPole s \<noteq> None" "equatorLine s \<noteq> None" "longitudeLinesGroup s \<noteq> None"
      "latitudeLinesGroup s \<noteq> None" "stats s \<noteq> None" "rendererInfoDiv s \<noteq> None"
    using assms by (auto simp: wired_def split: option.splits)
  have ce: "change_event c hp =
      ([listener_call c (\<not> checked e c)],
       hp \<lparr> hp_element := Some (e \<lparr> checked := (checked e)(c := \<not> checked e c) \<rparr>),
            hp_scene := Some (snd (scene_step s (listener_call c (\<not> checked e c)))) \<rparr>)"
    using e s l
    by (simp add: change_event_def Let_def filter_listeners run_listener_def call_def
          del: filter.simps)
  show "fst (change_event c hp) = [listener_call c (\<not> is_checked hp c)]"
    by (simp add: ce is_checked_def e)
  show "hp_scene (snd (change_event c hp)) =
           map_option (\<lambda>s. snd (scene_step s (listener_call c (\<not> is_checked hp c)))) (hp_scene hp)"
    by (simp add: ce is_checked_def e s)
  show "is_checked (snd (change_event c hp)) c = (\<not> is_checked hp c)"
    by (simp add: ce is_checked_def e)
  show "wired (snd (change_event c hp))"
    unfolding ce using t l by (cases c) (auto simp add: wired_def scene_defs)
qed

lemma change_events_wired: "wired hp \<Longrightarrow> wired (change_events cs hp)"
  by (induction cs arbitrary: hp) (simp_all add: change_event_wired(4))

lemma wired_targets:
  assumes "wired hp"
  shows "\<exists>s. hp_scene hp = Some s \<and> earthPole s \<noteq> None \<and> equatorLine s \<noteq> None
           \<and> longitudeLinesGroup s \<noteq> None \<and> latitudeLinesGroup s \<noteq> None
           \<and> stats s \<noteq> None \<and> rendererInfoDiv s \<noteq> None"
  using assms by (auto simp: wired_def split: option.splits)

text \<open>
  Claim C7. \<open>create\<close> calls each of the six toggles once, with the \<open>checked\<close> state of its
  checkbox, right after the listeners are added, and the scene it leaves is the new scene
  with these six toggles applied. On the page so created, after any sequence of checkbox
  changes, a change of a checkbox that was checked makes one call on the scene controller,
  the toggle of that checkbox with \<open>false\<close>: the scene afterwards is the scene before with
  that toggle applied, the object the toggle governs is hidden, and the checkbox is
  unchecked.
\<close>

theorem checkbox_change_calls_toggle:
  "fst (HomePage_create n hp) =
     [TogglePole (is_checked (snd (HomePage_create n hp)) ShowPole),
      ToggleEquator (is_checked (snd (HomePage_create n hp)) ShowEquator),
      ToggleLongitudeLines (is_checked (snd (HomePage_create n hp)) ShowLongitudeLines),
      ToggleLatitudeLines (is_checked (snd (HomePage_create n hp)) ShowLatitudeLines),
      ToggleStats (is_checked (snd (HomePage_create n hp)) ShowStats),
      ToggleRendererInfo (is_checked (snd (HomePage_create n hp)) ShowRendererInfo)]
   \<and> hp_scene (snd (HomePage_create n hp)) =
       Some (toggleRendererInfoVisibility
               (is_checked (snd (HomePage_create n hp)) ShowRendererInfo)
            (toggleStatsVisibility (is_checked (snd (HomePage_create n hp)) ShowStats)
            (toggleLatitudeLinesVisibility
               (is_checked (snd (HomePage_create n hp)) ShowLatitudeLines)
            (toggleLongitudeLinesVisibility
               (is_checked (snd (HomePage_create n hp)) ShowLongitudeLines)
            (toggleEquatorVisibility (is_checked (snd (HomePage_create n hp)) ShowEquator)
            (togglePoleVisibility (is_checked (snd (HomePage_create n hp)) ShowPole)
            (initialize (Scene3D_new (Some (Callback n))))))))))
   \<and> map_option (\<lambda>s. map_option display (stats s)) (hp_scene (snd (HomePage_create n hp)))
       = Some (Some ''block'')
   \<and> map_option (\<lambda>s. map_option display (rendererInfoDiv s))
         (hp_scene (snd (HomePage_create n hp)))
       = Some (Some ''block'')
   \<and> (is_checked (change_events cs (snd (HomePage_create n hp))) ShowPole \<longrightarrow>
        fst (change_event ShowPole (change_events cs (snd (HomePage_create n hp))))
          = [TogglePole False]
        \<and> hp_scene (snd (change_event ShowPole (change_events cs (snd (HomePage_create n hp)))))
          = map_option (togglePoleVisibility False)
              (hp_scene (change_events cs (snd (HomePage_create n hp))))
        \<and> map_option (\<lambda>s. map_option visible (earthPole s))
             (hp_scene (snd (change_event ShowPole
                (change_events cs (snd (HomePage_create n hp))))))
          = Some (Some False)
        \<and> \<not> is_checked (snd (change_event ShowPole
                (change_events cs (snd (HomePage_create n hp))))) ShowPole)
   \<and> (is_checked (change_events cs (snd (HomePage_create n hp))) ShowEquator \<longrightarrow>
        fst (change_event ShowEquator (change_events cs (snd (HomePage_create n hp))))
          = [ToggleEquator False]
        \<and> hp_scene (snd (change_event ShowEquator
                (change_events cs (snd (HomePage_create n hp)))))
          = map_option (toggleEquatorVisibility False)
              (hp_scene (change_events cs (snd (HomePage_create n hp))))
        \<and> map_option (\<lambda>s. map_option visible (equatorLine s))
             (hp_scene (snd (change_event ShowEquator
                (change_events cs (snd (HomePage_create n hp))))))
          = Some (Some False)
        \<and> \<not> is_checked (snd (change_event ShowEquator
                (change_events cs (snd (HomePage_create n hp))))) ShowEquator)
   \<and> (is_checked (change_events cs (snd (HomePage_create n hp))) ShowLongitudeLines \<longrightarrow>
        fst (change_event ShowLongitudeLines (change_events cs (snd (HomePage_create n hp))))
          = [ToggleLongitudeLines False]
        \<and> hp_scene (snd (change_event ShowLongitudeLines
                (change_events cs (snd (HomePage_create n hp)))))
          = map_option (toggleLongitudeLinesVisibility False)
              (hp_scene (change_events cs (snd (HomePage_create n hp))))
        \<and> map_option (\<lambda>s. map_option visible (longitudeLinesGroup s))
             (hp_scene (snd (change_event ShowLongitudeLines
                (change_events cs (snd (HomePage_create n hp))))))
          = Some (Some False)
        \<and> \<not> is_checked (snd (change_event ShowLongitudeLines
                (change_events cs (snd (HomePage_create n hp))))) ShowLongitudeLines)
   \<and> (is_checked (change_events cs (snd (HomePage_create n hp))) ShowLatitudeLines \<longrightarrow>
        fst (change_event ShowLatitudeLines (change_events cs (snd (HomePage_create n hp))))
          = [ToggleLatitudeLines False]
        \<and> hp_scene (snd (change_event ShowLatitudeLines
                (change_events cs (snd (HomePage_create n hp)))))
          = map_option (toggleLatitudeLinesVisibility False)
              (hp_scene (change_events cs (snd (HomePage_create n hp))))
        \<and> map_option (\<lambda>s. map_option visible (latitudeLinesGroup s))
             (hp_scene (snd (change_event ShowLatitudeLines
                (change_events cs (snd (HomePage_create n hp))))))
          = Some (Some False)
        \<and> \<not> is_checked (snd (change_event ShowLatitudeLines
                (change_events cs (snd (HomePage_create n hp))))) ShowLatitudeLines)
   \<and> (is_checked (change_events cs (snd (HomePage_create n hp))) ShowStats \<longrightarrow>
        fst (change_event ShowStats (change_events cs (snd (HomePage_create n hp))))
          = [ToggleStats False]
        \<and> hp_scene (snd (change_event ShowStats
                (change_events cs (snd (HomePage_create n hp)))))
          = map_option (toggleStatsVisibility False)
              (hp_scene (change_events cs (snd (HomePage_create n hp))))
        \<and> map_option (\<lambda>s. map_option display (stats s))
             (hp_scene (snd (change_event ShowStats
                (change_events cs (snd (HomePage_create n hp))))))
          = Some (Some ''none'')
        \<and> \<not> is_checked (snd (change_event ShowStats
                (change_events cs (snd (HomePage_create n hp))))) ShowStats)
   \<and> (is_checked (change_events cs (snd (HomePage_create n hp))) ShowRendererInfo \<longrightarrow>
        fst (change_event ShowRendererInfo (change_events cs (snd (HomePage_create n hp))))
          = [ToggleRendererInfo False]
        \<and> hp_scene (snd (change_event ShowRendererInfo
                (change_events cs (snd (HomePage_create n hp)))))
          = map_option (toggleRendererInfoVisibility False)
              (hp_scene (change_events cs (snd (HomePage_create n hp))))
        \<and> map_option (\<lambda>s. map_option display (rendererInfoDiv s))
             (hp_scene (snd (change_event ShowRendererInfo
                (change_events cs (snd (HomePage_create n hp))))))
          = Some (Some ''none'')
        \<and> \<not> is_checked (snd (change_event ShowRendererInfo
                (change_events cs (snd (HomePage_create n hp))))) ShowRendererInfo)"
proof -
  define S where "S = change_events cs (snd (HomePage_create n hp))"
  have w: "wired S"
    unfolding S_def by (rule change_events_wired [OF create_wired])
  obtain s where s: "hp_scene S = Some s"
    and t: "earthPole s \<noteq> None" "equatorLine s \<noteq> None" "longitudeLinesGroup s \<noteq> None"
      "latitudeLinesGroup s \<noteq> None" "stats s \<noteq> None" "rendererInfoDiv s \<noteq> None"
    using wired_targets [OF w] by blast
  note ce = change_event_wired(1,2,3) [OF w]
  have a: "fst (HomePage_create n hp) =
     [TogglePole (is_checked (snd (HomePage_create n hp)) ShowPole),
      ToggleEquator (is_checked (snd (HomePage_create n hp)) ShowEquator),
      ToggleLongitudeLines (is_checked (snd (HomePage_create n hp)) ShowLongitudeLines),
      ToggleLatitudeLines (is_checked (snd (HomePage_create n hp)) ShowLatitudeLines),
      ToggleStats (is_checked (snd (HomePage_create n hp)) ShowStats),
      ToggleRendererInfo (is_checked (snd (HomePage_create n hp)) ShowRendererInfo)]"
    by (simp add: create_calls create_checked)
  have b: "hp_scene (snd (HomePage_create n hp)) =
       Some (toggleRendererInfoVisibility
               (is_checked (snd (HomePage_create n hp)) ShowRendererInfo)
            (toggleStatsVisibility (is_checked (snd (HomePage_create n hp)) ShowStats)
            (toggleLatitudeLinesVisibility
               (is_checked (snd (HomePage_create n hp)) ShowLatitudeLines)
            (toggleLongitudeLinesVisibility
               (is_checked (snd (HomePage_create n hp)) ShowLongitudeLines)
            (toggleEquatorVisibility (is_checked (snd (HomePage_create n hp)) ShowEquator)
            (togglePoleVisibility (is_checked (snd (HomePage_create n hp)) ShowPole)
            (initialize (Scene3D_new (Some (Callback n))))))))))"
    by (simp add: create_scene create_checked)
  have c: "map_option (\<lambda>s. map_option display (stats s)) (hp_scene (snd (HomePage_create n hp)))
       = Some (Some ''block'')"
    "map_option (\<lambda>s. map_option display (rendererInfoDiv s))
         (hp_scene (snd (HomePage_create n hp)))
       = Some (Some ''block'')"
    by (simp_all add: create_scene scene_defs Scene3D_new_def)
  have p1: "is_checked S ShowPole \<longrightarrow>
        fst (change_event ShowPole S) = [TogglePole False]
        \<and> hp_scene (snd (change_event ShowPole S))
          = map_option (togglePoleVisibility False) (hp_scene S)
        \<and> map_option (\<lambda>s. map_option visible (earthPole s))
             (hp_scene (snd (change_event ShowPole S))) = Some (Some False)
        \<and> \<not> is_checked (snd (change_event ShowPole S)) ShowPole"
    using t by (auto simp add: ce s togglePoleVisibility_def)
  have p2: "is_checked S ShowEquator \<longrightarrow>
        fst (change_event ShowEquator S) = [ToggleEquator False]
        \<and> hp_scene (snd (change_event ShowEquator S))
          = map_option (toggleEquatorVisibility False) (hp_scene S)
        \<and> map_option (\<lambda>s. map_option visible (equatorLine s))
             (hp_scene (snd (change_event ShowEquator S))) = Some (Some False)
        \<and> \<not> is_checked (snd (change_event ShowEquator S)) ShowEquator"
    using t by (auto simp add: ce s toggleEquatorVisibility_def)
  have p3: "is_checked S ShowLongitudeLines \<longrightarrow>
        fst (change_event ShowLongitudeLines S) = [ToggleLongitudeLines False]
        \<and> hp_scene (snd (change_event ShowLongitudeLines S))
          = map_option (toggleLongitudeLinesVisibility False) (hp_scene S)
        \<and> map_option (\<lambda>s. map_option visible (longitudeLinesGroup s))
             (hp_scene (snd (change_event ShowLongitudeLines S))) = Some (Some False)
        \<and> \<not> is_checked (snd (change_event ShowLongitudeLines S)) ShowLongitudeLines"
    using t by (auto simp add: ce s toggleLongitudeLinesVisibility_def)
  have p4: "is_checked S ShowLatitudeLines \<longrightarrow>
        fst (change_event ShowLatitudeLines S) = [ToggleLatitudeLines False]
        \<and> hp_scene (snd (change_event ShowLatitudeLines S))
          = map_option (toggleLatitudeLinesVisibility False) (hp_scene S)
        \<and> map_option (\<lambda>s. map_option visible (latitudeLinesGroup s))
             (hp_scene (snd (change_event ShowLatitudeLines S))) = Some (Some False)
        \<and> \<not> is_checked (snd (change_event ShowLatitudeLines S)) ShowLatitudeLines"
    using t by (auto simp add: ce s toggleLatitudeLinesVisibility_def)
  have p5: "is_checked S ShowStats \<longrightarrow>
        fst (change_event ShowStats S) = [ToggleStats False]
        \<and> hp_scene (snd (change_event ShowStats S))
          = map_option (toggleStatsVisibility False) (hp_scene S)
        \<and> map_option (\<lambda>s. map_option display (stats s))
             (hp_scene (snd (change_event ShowStats S))) = Some (Some ''none'')
        \<and> \<not> is_checked (snd (change_event ShowStats S)) ShowStats"
    using t by (auto simp add: ce s toggleStatsVisibility_def)
  have p6: "is_checked S ShowRendererInfo \<longrightarrow>
        fst (change_event ShowRendererInfo S) = [ToggleRendererInfo False]
        \<and> hp_scene (snd (change_event ShowRendererInfo S))
          = map_option (toggleRendererInfoVisibility False) (hp_scene S)
        \<and> map_option (\<lambda>s. map_option display (rendererInfoDiv s))
             (hp_scene (snd (change_event ShowRendererInfo S))) = Some (Some ''none'')
        \<and> \<not> is_checked (snd (change_event ShowRendererInfo S)) ShowRendererInfo"
    using t by (auto simp add: ce s toggleRendererInfoVisibility_def)
  show ?thesis
    using a b c p1 p2 p3 p4 p5 p6 unfolding S_def by blast
qed

theorem checkbox_change_calls_toggle_witness:
  "is_checked
       (change_events [ShowStats, ShowStats] (snd (HomePage_create 3 fresh_home))) ShowPole
   \<and> is_checked
       (change_events [ShowStats, ShowStats] (snd (HomePage_create 3 fresh_home))) ShowEquator
   \<and> is_checked
       (change_events [ShowStats, ShowStats] (snd (HomePage_create 3 fresh_home))) ShowLongitudeLines
   \<and> is_checked
       (change_events [ShowStats, ShowStats] (snd (HomePage_create 3 fresh_home))) ShowLatitudeLines
   \<and> is_checked
       (change_events [ShowStats, ShowStats] (snd (HomePage_create 3 fresh_home))) ShowStats
   \<and> is_checked
       (change_events [ShowStats, ShowStats] (snd (HomePage_create 3 fresh_home))) ShowRendererInfo
   \<and> fst (change_event ShowPole
       (change_events [ShowStats, ShowStats] (snd (HomePage_create 3 fresh_home))))
      = [TogglePole False]
   \<and> fst (change_event ShowEquator
       (change_events [ShowStats, ShowStats] (snd (HomePage_create 3 fresh_home))))
      = [ToggleEquator False]
   \<and> fst (change_event ShowLongitudeLines
       (change_events [ShowStats, ShowStats] (snd (HomePage_create 3 fresh_home))))
      = [ToggleLongitudeLines False]
   \<and> fst (change_event ShowLatitudeLines
       (change_events [ShowStats, ShowStats] (snd (HomePage_create 3 fresh_home))))
      = [ToggleLatitudeLines False]
   \<and> fst (change_event ShowStats
       (change_events [ShowStats, ShowStats] (snd (HomePage_create 3 fresh_home))))
      = [ToggleStats False]
   \<and> fst (change_event ShowRendererInfo
       (change_events [ShowStats, ShowStats] (snd (HomePage_create 3 fresh_home))))
      = [ToggleRendererInfo False]
   \<and> map_option (\<lambda>s. map_option visible (earthPole s))
       (hp_scene (snd (change_event ShowPole
       (change_events [ShowStats, ShowStats] (snd (HomePage_create 3 fresh_home)))))) = Some (Some False)
   \<and> map_option (\<lambda>s. map_option display (stats s))
       (hp_scene (snd (change_event ShowStats
       (change_events [ShowStats, ShowStats] (snd (HomePage_create 3 fresh_home)))))) = Some (Some ''none'')"
proof -
  have h:
    "is_checked
       (change_events [ShowStats, ShowStats] (snd (HomePage_create 3 fresh_home))) ShowPole"
    "is_checked
       (change_events [ShowStats, ShowStats] (snd (HomePage_create 3 fresh_home))) ShowEquator"
    "is_checked
       (change_events [ShowStats, ShowStats] (snd (HomePage_create 3 fresh_home))) ShowLongitudeLines"
    "is_checked
       (change_events [ShowStats, ShowStats] (snd (HomePage_create 3 fresh_home))) ShowLatitudeLines"
    "is_checked
       (change_events [ShowStats, ShowStats] (snd (HomePage_create 3 fresh_home))) ShowStats"
    "is_checked
       (change_events [ShowStats, ShowStats] (snd (HomePage_create 3 fresh_home))) ShowRendererInfo"
    by (simp_all add: create_defs is_checked_def change_event_def run_listener_def
          fresh_home_def)
  show ?thesis
    using h checkbox_change_calls_toggle [of 3 fresh_home "[ShowStats, ShowStats]"]
    by blast
qed

section \<open>Properties of the router\<close>

lemma page_element_destroy [simp]: "page_element (page_destroy pg) = None"
  by (cases pg) (simp_all add: HomePage_destroy_def NotFoundPage_destroy_def split: option.splits)

lemma page_released_destroy [simp]: "page_released (page_destroy pg)"
  by (cases pg) (simp_all add: HomePage_destroy_def NotFoundPage_destroy_def split: option.splits)

lemma page_released_new [simp]: "page_released (new_page cls)"
  by (cases cls) simp_all

lemma page_released_element: "page_released pg \<Longrightarrow> page_element pg = None"
  by (cases pg) simp_all

lemma page_create_fst [simp]: "fst (page_create n pg) = n"
  by (cases pg) simp_all

lemma page_element_create [simp]: "page_element (snd (page_create n pg)) = Some n"
  by (cases pg) (simp_all add: create_defs NotFoundPage_create_def)

lemma creates_append: "creates (t @ u) = creates t @ creates u"
  by (simp add: creates_def)

lemma creates_simps [simp]:
  "creates [] = []"
  "creates (EvCreate r n # t) = (r, n) # creates t"
  "creates (EvConstruct cls r # t) = creates t"
  "creates (EvPushState url # t) = creates t"
  "creates (EvDestroy r # t) = creates t"
  "creates (EvClear # t) = creates t"
  "creates (EvAppend n # t) = creates t"
  "creates (EvTitle ti # t) = creates t"
  "creates (EvScrollTo x y # t) = creates t"
  by (simp_all add: creates_def)

subsection \<open>Reachable states satisfy the invariant\<close>

lemma lifecycle_append:
  "lifecycle ph (xs @ ys) =
     (case lifecycle ph xs of None \<Rightarrow> None | Some ph1 \<Rightarrow> lifecycle ph1 ys)"
  by (induction xs arbitrary: ph) (simp_all split: option.splits)

lemma mount_fields:
  assumes "heap st r = Some pg"
  shows "heap (mount r st) = (heap st)(r \<mapsto> snd (page_create (next_node (win st)) pg))"
    and "container (mount r st) = [next_node (win st)]"
    and "currentPage (mount r st) = Some r"
    and "routes (mount r st) = routes st"
    and "next_ref (mount r st) = next_ref st"
    and "trace (mount r st) = trace st @
           [EvClear, EvCreate r (next_node (win st)), EvAppend (next_node (win st)),
            EvTitle (page_getTitle (snd (page_create (next_node (win st)) pg))),
            EvScrollTo 0 0]"
    and "win (mount r st) =
           (win st) \<lparr> next_node := Suc (next_node (win st)),
                      title := page_getTitle (snd (page_create (next_node (win st)) pg)),
                      scroll := (0, 0) \<rparr>"
  using assms
  by (simp_all add: mount_def Let_def case_prod_unfold)

lemma destroy_current_fields:
  shows "routes (destroy_current st) = routes st"
    and "next_ref (destroy_current st) = next_ref st"
    and "container (destroy_current st) = container st"
    and "currentPage (destroy_current st) = currentPage st"
    and "win (destroy_current st) = win st"
  by (simp_all add: destroy_current_def split: option.splits)

lemma destroy_current_heap:
  "heap (destroy_current st) r =
     (if currentPage st = Some r then map_option page_destroy (heap st r) else heap st r)"
  by (auto simp add: destroy_current_def split: option.splits)

lemma destroy_current_trace:
  "trace (destroy_current st) =
     trace st @ (case currentPage st of
                   None \<Rightarrow> []
                 | Some c \<Rightarrow> (case heap st c of None \<Rightarrow> [] | Some pg \<Rightarrow> [EvDestroy c]))"
  by (simp add: destroy_current_def split: option.splits)

lemma find_page_routes: "find_page st = Some r \<Longrightarrow> \<exists>p. routes st p = Some r"
  by (auto simp add: find_page_def split: option.splits)

lemma inv_routes_lt: "inv c st \<Longrightarrow> routes st p = Some r \<Longrightarrow> r < next_ref st"
  unfolding inv_def by blast

lemma inv_allocated: "inv c st \<Longrightarrow> r < next_ref st \<Longrightarrow> \<exists>pg. heap st r = Some pg"
  unfolding inv_def by blast

lemma inv_routes_heap: "inv c st \<Longrightarrow> routes st p = Some r \<Longrightarrow> \<exists>pg. heap st r = Some pg"
  using inv_routes_lt inv_allocated by blast

lemma inv_released:
  "inv c st \<Longrightarrow> heap st r = Some pg \<Longrightarrow> currentPage st \<noteq> Some r \<Longrightarrow> page_released pg"
  unfolding inv_def by blast

lemma inv_unmounted:
  "inv c st \<Longrightarrow> currentPage st = None \<Longrightarrow> container st = c \<and> creates (trace st) = []"
  unfolding inv_def by blast

lemma inv_current:
  "inv c st \<Longrightarrow> currentPage st = Some r \<Longrightarrow>
     r < next_ref st \<and>
     (\<exists>pg n. heap st r = Some pg \<and> page_element pg = Some n \<and> container st = [n]
        \<and> creates (trace st) \<noteq> [] \<and> last (creates (trace st)) = (r, n))"
  unfolding inv_def by blast

lemma inv_current_heap: "inv c st \<Longrightarrow> currentPage st = Some r \<Longrightarrow> \<exists>pg. heap st r = Some pg"
  using inv_current by blast

lemma inv_nodes:
  "inv c st \<Longrightarrow> distinct (map snd (creates (trace st)))"
  "inv c st \<Longrightarrow> (r, n) \<in> set (creates (trace st)) \<Longrightarrow> n < next_node (win st)"
  unfolding inv_def by force+

lemma inv_lifecycle:
  "inv c st \<Longrightarrow> lifecycle (Idle None) (trace st) = Some (Idle (currentPage st))"
  by (simp add: inv_def)

lemma invI:
  assumes "\<And>p r. routes st p = Some r \<Longrightarrow> r < next_ref st"
    and "\<And>r. r < next_ref st \<Longrightarrow> heap st r \<noteq> None"
    and "\<And>r pg. heap st r = Some pg \<Longrightarrow> currentPage st \<noteq> Some r \<Longrightarrow> page_released pg"
    and "currentPage st = None \<Longrightarrow> container st = c \<and> creates (trace st) = []"
    and "\<And>r. currentPage st = Some r \<Longrightarrow>
           r < next_ref st \<and>
           (\<exists>pg n. heap st r = Some pg \<and> page_element pg = Some n \<and> container st = [n]
              \<and> creates (trace st) \<noteq> [] \<and> last (creates (trace st)) = (r, n))"
    and "distinct (map snd (creates (trace st)))"
    and "\<And>n. n \<in> set (map snd (creates (trace st))) \<Longrightarrow> n < next_node (win st)"
    and "lifecycle (Idle None) (trace st) = Some (Idle (currentPage st))"
  shows "inv c st"
  unfolding inv_def using assms by blast

lemma inv_handleRouteChange:
  assumes "inv c st"
  shows "inv c (handleRouteChange st)"
proof (cases "find_page st")
  case None
  then show ?thesis using assms by (simp add: handleRouteChange_def)
next
  case (Some r)
  define d where "d = destroy_current st"
  have r_lt: "r < next_ref st"
    using find_page_routes [OF Some] inv_routes_lt [OF assms] by blast
  then obtain pg where pg: "heap st r = Some pg"
    using inv_allocated [OF assms] by blast
  have dheap: "\<And>x. heap d x =
      (if currentPage st = Some x then map_option page_destroy (heap st x) else heap st x)"
    by (simp add: d_def destroy_current_heap)
  obtain pg0 where pg0: "heap d r = Some pg0"
    using pg dheap [of r] by (cases "currentPage st = Some r") auto
  have released: "\<And>x q. heap d x = Some q \<Longrightarrow> page_released q"
  proof -
    fix x q assume q: "heap d x = Some q"
    show "page_released q"
    proof (cases "currentPage st = Some x")
      case True
      then show ?thesis using q dheap [of x] by auto
    next
      case False
      then have "heap st x = Some q" using q dheap [of x] by simp
      then show ?thesis using inv_released [OF assms] False by blast
    qed
  qed
  have dom_same: "\<And>x. heap d x \<noteq> None \<longleftrightarrow> heap st x \<noteq> None"
    using dheap by auto
  have dtrace: "trace d = trace st @ (case currentPage st of None \<Rightarrow> [] | Some c \<Rightarrow> [EvDestroy c])"
    using inv_current_heap [OF assms]
    by (auto simp add: d_def destroy_current_trace split: option.splits)
  have dlife: "lifecycle (Idle None) (trace d) =
      Some (case currentPage st of None \<Rightarrow> Idle None | Some c \<Rightarrow> Destroyed)"
    using inv_lifecycle [OF assms] by (simp add: dtrace lifecycle_append split: option.splits)
  have h: "handleRouteChange st = mount r d"
    using Some by (simp add: handleRouteChange_def d_def)
  have dcreates: "creates (trace d) = creates (trace st)"
    by (simp add: dtrace creates_append split: option.splits)
  have old_nodes: "\<And>n. n \<in> snd ` set (creates (trace st)) \<Longrightarrow> n < next_node (win st)"
    using inv_nodes(2) [OF assms] by auto
  note mf = mount_fields [OF pg0]
  have df: "routes d = routes st" "next_ref d = next_ref st" "container d = container st"
    "currentPage d = currentPage st" "win d = win st"
    by (simp_all add: d_def destroy_current_fields)
  show ?thesis
    unfolding h
  proof (rule invI)
    fix p x assume "routes (mount r d) p = Some x"
    then show "x < next_ref (mount r d)"
      using inv_routes_lt [OF assms] by (simp add: mf(4,5) df)
  next
    fix x assume "x < next_ref (mount r d)"
    then show "heap (mount r d) x \<noteq> None"
      using inv_allocated [OF assms, of x] dom_same [of x] by (simp add: mf(1,5) df)
  next
    fix x q assume "heap (mount r d) x = Some q" "currentPage (mount r d) \<noteq> Some x"
    then show "page_released q"
      using released by (auto simp add: mf(1,3) split: if_splits)
  next
    assume "currentPage (mount r d) = None"
    then show "container (mount r d) = c \<and> creates (trace (mount r d)) = []"
      by (simp add: mf(3))
  next
    fix x assume "currentPage (mount r d) = Some x"
    then have x: "x = r" by (simp add: mf(3))
    show "x < next_ref (mount r d) \<and>
      (\<exists>q m. heap (mount r d) x = Some q \<and> page_element q = Some m \<and> container (mount r d) = [m]
         \<and> creates (trace (mount r d)) \<noteq> [] \<and> last (creates (trace (mount r d))) = (x, m))"
      using r_lt by (simp add: x mf(1,2,5,6) df creates_append)
  next
    show "distinct (map snd (creates (trace (mount r d))))"
      using inv_nodes(1) [OF assms] old_nodes
      by (auto simp add: mf(6) df dcreates creates_append)
  next
    fix n assume "n \<in> set (map snd (creates (trace (mount r d))))"
    then show "n < next_node (win (mount r d))"
      using old_nodes by (auto simp add: mf(6,7) df dcreates creates_append less_Suc_eq)
  next
    show "lifecycle (Idle None) (trace (mount r d)) = Some (Idle (currentPage (mount r d)))"
      by (simp add: mf(3,6) lifecycle_append dlife split: option.splits)
  qed
qed

lemma inv_Router_new: "inv c (Router_new c w)"
  by (simp add: inv_def Router_new_def)

lemma inv_addRoute:
  assumes "inv c st"
  shows "inv c (addRoute p cls st)"
proof (rule invI)
  fix q x assume "routes (addRoute p cls st) q = Some x"
  then show "x < next_ref (addRoute p cls st)"
    using inv_routes_lt [OF assms] by (auto simp add: addRoute_def less_Suc_eq split: if_splits)
next
  fix x assume "x < next_ref (addRoute p cls st)"
  then show "heap (addRoute p cls st) x \<noteq> None"
    using inv_allocated [OF assms, of x] by (auto simp add: addRoute_def less_Suc_eq)
next
  fix x q assume "heap (addRoute p cls st) x = Some q" "currentPage (addRoute p cls st) \<noteq> Some x"
  then show "page_released q"
    using inv_released [OF assms, of x q] by (auto simp add: addRoute_def split: if_splits)
next
  assume "currentPage (addRoute p cls st) = None"
  then show "container (addRoute p cls st) = c \<and> creates (trace (addRoute p cls st)) = []"
    using inv_unmounted [OF assms] by (simp add: addRoute_def creates_append)
next
  fix x assume "currentPage (addRoute p cls st) = Some x"
  then have cx: "currentPage st = Some x" by (simp add: addRoute_def)
  from inv_current [OF assms cx] show "x < next_ref (addRoute p cls st) \<and>
      (\<exists>q m. heap (addRoute p cls st) x = Some q \<and> page_element q = Some m
         \<and> container (addRoute p cls st) = [m]
         \<and> creates (trace (addRoute p cls st)) \<noteq> []
         \<and> last (creates (trace (addRoute p cls st))) = (x, m))"
    by (auto simp add: addRoute_def creates_append)
next
  show "distinct (map snd (creates (trace (addRoute p cls st))))"
    using inv_nodes(1) [OF assms] by (simp add: addRoute_def creates_append)
next
  fix n assume "n \<in> set (map snd (creates (trace (addRoute p cls st))))"
  then show "n < next_node (win (addRoute p cls st))"
    using inv_nodes(2) [OF assms] by (auto simp add: addRoute_def creates_append)
next
  show "lifecycle (Idle None) (trace (addRoute p cls st))
      = Some (Idle (currentPage (addRoute p cls st)))"
    using inv_lifecycle [OF assms] by (simp add: addRoute_def lifecycle_append)
qed

lemma inv_win:
  "inv c st \<Longrightarrow> next_node w = next_node (win st) \<Longrightarrow> inv c (st \<lparr> win := w \<rparr>)"
  by (simp add: inv_def)

lemma inv_setupNavHighlighting: "inv c st \<Longrightarrow> inv c (setupNavHighlighting st)"
  by (simp add: setupNavHighlighting_def inv_win)

lemma inv_pushState: "inv c st \<Longrightarrow> inv c (pushState url st)"
  by (simp add: pushState_def inv_def lifecycle_append creates_append)

lemma inv_navigate: "inv c st \<Longrightarrow> inv c (navigate p st)"
  by (simp add: navigate_def inv_setupNavHighlighting inv_handleRouteChange inv_pushState)

lemma inv_apply_op: "inv c st \<Longrightarrow> inv c (apply_op x st)"
proof (cases x)
  case (Click target)
  assume "inv c st"
  then show ?thesis
    using Click by (auto simp add: click_def inv_navigate split: option.splits)
qed (simp_all add: inv_addRoute start_def popstate_def inv_navigate inv_setupNavHighlighting
       inv_handleRouteChange inv_win)

lemma inv_run: "inv c st \<Longrightarrow> inv c (run ops st)"
  by (induction ops arbitrary: st) (simp_all add: inv_apply_op)

lemma inv_reachable: "inv c (run ops (Router_new c w))"
  by (rule inv_run [OF inv_Router_new])

subsection \<open>What a route change does\<close>

lemma handleRouteChange_found:
  assumes "inv c st" and "find_page st = Some r" and "heap st r = Some pg"
  defines "n \<equiv> next_node (win st)"
  defines "pg1 \<equiv> snd (page_create n (if currentPage st = Some r then page_destroy pg else pg))"
  shows "heap (handleRouteChange st) r = Some pg1"
    and "container (handleRouteChange st) = [n]"
    and "currentPage (handleRouteChange st) = Some r"
    and "routes (handleRouteChange st) = routes st"
    and "next_ref (handleRouteChange st) = next_ref st"
    and "trace (handleRouteChange st) =
           trace st @ (case currentPage st of None \<Rightarrow> [] | Some cur \<Rightarrow> [EvDestroy cur]) @
           [EvClear, EvCreate r n, EvAppend n, EvTitle (page_getTitle pg1), EvScrollTo 0 0]"
    and "win (handleRouteChange st) =
           (win st) \<lparr> next_node := Suc n, title := page_getTitle pg1, scroll := (0, 0) \<rparr>"
    and "x \<noteq> r \<Longrightarrow> heap (handleRouteChange st) x =
           (if currentPage st = Some x then map_option page_destroy (heap st x) else heap st x)"
proof -
  define d where "d = destroy_current st"
  have h: "handleRouteChange st = mount r d"
    using assms(2) by (simp add: handleRouteChange_def d_def)
  have df: "routes d = routes st" "next_ref d = next_ref st" "container d = container st"
    "currentPage d = currentPage st" "win d = win st"
    by (simp_all add: d_def destroy_current_fields)
  have pg0: "heap d r = Some (if currentPage st = Some r then page_destroy pg else pg)"
    using assms(3) by (simp add: d_def destroy_current_heap)
  have dtrace: "trace d = trace st @ (case currentPage st of None \<Rightarrow> [] | Some cur \<Rightarrow> [EvDestroy cur])"
    using inv_current_heap [OF assms(1)]
    by (auto simp add: d_def destroy_current_trace split: option.splits)
  note mf = mount_fields [OF pg0]
  show "heap (handleRouteChange st) r = Some pg1"
    by (simp add: h mf(1) df pg1_def n_def)
  show "container (handleRouteChange st) = [n]"
    by (simp add: h mf(2) df n_def)
  show "currentPage (handleRouteChange st) = Some r"
    by (simp add: h mf(3))
  show "routes (handleRouteChange st) = routes st"
    by (simp add: h mf(4) df)
  show "next_ref (handleRouteChange st) = next_ref st"
    by (simp add: h mf(5) df)
  show "trace (handleRouteChange st) =
           trace st @ (case currentPage st of None \<Rightarrow> [] | Some cur \<Rightarrow> [EvDestroy cur]) @
           [EvClear, EvCreate r n, EvAppend n, EvTitle (page_getTitle pg1), EvScrollTo 0 0]"
    by (simp add: h mf(6) df dtrace pg1_def n_def)
  show "win (handleRouteChange st) =
           (win st) \<lparr> next_node := Suc n, title := page_getTitle pg1, scroll := (0, 0) \<rparr>"
    by (simp add: h mf(7) df pg1_def n_def)
  have dh: "heap d x =
      (if currentPage st = Some x then map_option page_destroy (heap st x) else heap st x)"
    by (simp add: d_def destroy_current_heap)
  show "x \<noteq> r \<Longrightarrow> heap (handleRouteChange st) x =
           (if currentPage st = Some x then map_option page_destroy (heap st x) else heap st x)"
    by (simp add: h mf(1) dh)
qed

subsection \<open>The page lifecycle\<close>

lemma distinct_snd_unique:
  "distinct (map snd xs) \<Longrightarrow> (a, n) \<in> set xs \<Longrightarrow> (b, n) \<in> set xs \<Longrightarrow> a = b"
  by (induction xs) (auto simp add: image_iff)

lemma inv_is_mounted: "inv c st \<Longrightarrow> is_mounted st x = (currentPage st = Some x)"
proof
  assume i: "inv c st" and m: "is_mounted st x"
  from m obtain n where n: "n \<in> set (container st)" "(x, n) \<in> set (creates (trace st))"
    by (auto simp add: is_mounted_def list_ex_iff)
  then have "creates (trace st) \<noteq> []" by auto
  then have "currentPage st \<noteq> None" using inv_unmounted [OF i] by auto
  then obtain r where r: "currentPage st = Some r" by auto
  from inv_current [OF i r] obtain k where
    k: "container st = [k]" "creates (trace st) \<noteq> []" "last (creates (trace st)) = (r, k)"
    by blast
  have "n = k" using n(1) k(1) by simp
  moreover have "(r, k) \<in> set (creates (trace st))"
    using k(2,3) last_in_set [of "creates (trace st)"] by simp
  ultimately have "x = r"
    using distinct_snd_unique [OF inv_nodes(1) [OF i]] n(2) by blast
  then show "currentPage st = Some x" using r by simp
next
  assume i: "inv c st" and cx: "currentPage st = Some x"
  from inv_current [OF i cx] obtain k where
    k: "container st = [k]" "creates (trace st) \<noteq> []" "last (creates (trace st)) = (x, k)"
    by blast
  have "(x, k) \<in> set (creates (trace st))"
    using k(2,3) last_in_set [of "creates (trace st)"] by simp
  then show "is_mounted st x" by (simp add: is_mounted_def k(1))
qed

lemma filter_upt_eq:
  "filter (\<lambda>x. cur = Some x) [0 ..< k] =
     (case cur of None \<Rightarrow> [] | Some r \<Rightarrow> if r < k then [r] else [])"
  by (induction k) (auto split: option.splits)

lemma inv_mounted:
  assumes "inv c st"
  shows "mounted st = (case currentPage st of None \<Rightarrow> [] | Some r \<Rightarrow> [r])"
proof -
  have "is_mounted st = (\<lambda>x. currentPage st = Some x)"
    using inv_is_mounted [OF assms] by (intro ext) simp
  then have "mounted st = filter (\<lambda>x. currentPage st = Some x) [0 ..< next_ref st]"
    by (simp add: mounted_def)
  also have "\<dots> = (case currentPage st of None \<Rightarrow> [] | Some r \<Rightarrow> [r])"
    using inv_current [OF assms] by (auto simp add: filter_upt_eq split: option.splits)
  finally show ?thesis .
qed

text \<open>
  Claim C1. In every state that a router reaches by registrations, starts, navigations,
  history events and clicks: as long as no page is current the container is as it was
  given; otherwise its only child is the element that the last call of \<open>create\<close>
  returned, which was made on the current page and is the element that page holds. So at
  most one page is mounted, every other page holds nothing, and the calls made so far
  follow the order that \<open>lifecycle\<close> accepts. A route change that finds page \<open>r\<close> while
  page \<open>cur\<close> is mounted calls \<open>destroy\<close> on \<open>cur\<close> once, then clears the container, then
  calls \<open>create\<close> on \<open>r\<close>: the page objects are the old ones with \<open>page_destroy\<close> and
  \<open>page_create\<close> applied in that order, and the container holds the new element alone.
\<close>

theorem router_lifecycle:
  assumes "st = run ops (Router_new c w)"
  shows "(case currentPage st of
            None \<Rightarrow> container st = c \<and> creates (trace st) = []
          | Some cur \<Rightarrow>
              creates (trace st) \<noteq> []
              \<and> container st = [snd (last (creates (trace st)))]
              \<and> fst (last (creates (trace st))) = cur
              \<and> map_option page_element (heap st cur)
                  = Some (Some (snd (last (creates (trace st))))))
    \<and> length (mounted st) \<le> 1
    \<and> mounted st = (case currentPage st of None \<Rightarrow> [] | Some r \<Rightarrow> [r])
    \<and> (x < next_ref st \<and> currentPage st \<noteq> Some x \<longrightarrow>
          map_option page_released (heap st x) = Some True)
    \<and> lifecycle (Idle None) (trace st) = Some (Idle (currentPage st))
    \<and> (currentPage st = Some cur \<and> find_page st = Some r \<longrightarrow>
         trace (handleRouteChange st) =
           trace st @
           [EvDestroy cur, EvClear, EvCreate r (next_node (win st)),
            EvAppend (next_node (win st)), EvTitle (title (win (handleRouteChange st))),
            EvScrollTo 0 0]
         \<and> container (handleRouteChange st) = [next_node (win st)]
         \<and> currentPage (handleRouteChange st) = Some r
         \<and> heap (handleRouteChange st) r =
             map_option (\<lambda>pg. snd (page_create (next_node (win st))
                (if cur = r then page_destroy pg else pg))) (heap st r)
         \<and> (cur \<noteq> r \<longrightarrow>
               heap (handleRouteChange st) cur = map_option page_destroy (heap st cur)
               \<and> map_option page_released (heap (handleRouteChange st) cur) = Some True))"
proof -
  have i: "inv c st" using assms by (simp add: inv_reachable)
  have m: "mounted st = (case currentPage st of None \<Rightarrow> [] | Some r \<Rightarrow> [r])"
    by (rule inv_mounted [OF i])
  have l: "length (mounted st) \<le> 1" by (simp add: m split: option.splits)
  have a: "case currentPage st of
            None \<Rightarrow> container st = c \<and> creates (trace st) = []
          | Some cur \<Rightarrow>
              creates (trace st) \<noteq> []
              \<and> container st = [snd (last (creates (trace st)))]
              \<and> fst (last (creates (trace st))) = cur
              \<and> map_option page_element (heap st cur)
                  = Some (Some (snd (last (creates (trace st)))))"
  proof (cases "currentPage st")
    case None
    then show ?thesis using inv_unmounted [OF i] by simp
  next
    case (Some cur)
    from inv_current [OF i Some] show ?thesis by (auto simp add: Some)
  qed
  have b: "x < next_ref st \<and> currentPage st \<noteq> Some x \<longrightarrow>
          map_option page_released (heap st x) = Some True"
  proof (intro impI, elim conjE)
    assume x: "x < next_ref st" "currentPage st \<noteq> Some x"
    then obtain pg where pg: "heap st x = Some pg" using inv_allocated [OF i] by blast
    then show "map_option page_released (heap st x) = Some True"
      using inv_released [OF i pg x(2)] by simp
  qed
  have s: "currentPage st = Some cur \<and> find_page st = Some r \<longrightarrow>
         trace (handleRouteChange st) =
           trace st @
           [EvDestroy cur, EvClear, EvCreate r (next_node (win st)),
            EvAppend (next_node (win st)), EvTitle (title (win (handleRouteChange st))),
            EvScrollTo 0 0]
         \<and> container (handleRouteChange st) = [next_node (win st)]
         \<and> currentPage (handleRouteChange st) = Some r
         \<and> heap (handleRouteChange st) r =
             map_option (\<lambda>pg. snd (page_create (next_node (win st))
                (if cur = r then page_destroy pg else pg))) (heap st r)
         \<and> (cur \<noteq> r \<longrightarrow>
               heap (handleRouteChange st) cur = map_option page_destroy (heap st cur)
               \<and> map_option page_released (heap (handleRouteChange st) cur) = Some True)"
  proof (intro impI, elim conjE)
    assume cu: "currentPage st = Some cur" and f: "find_page st = Some r"
    obtain p where "routes st p = Some r" using find_page_routes [OF f] by blast
    then obtain pg where pg: "heap st r = Some pg" using inv_routes_heap [OF i] by blast
    obtain pc where pc: "heap st cur = Some pc" using inv_current_heap [OF i cu] by blast
    note hf = handleRouteChange_found [OF i f pg]
    have t: "trace (handleRouteChange st) =
           trace st @
           [EvDestroy cur, EvClear, EvCreate r (next_node (win st)),
            EvAppend (next_node (win st)), EvTitle (title (win (handleRouteChange st))),
            EvScrollTo 0 0]"
      by (simp add: hf(6,7) cu)
    have hr: "heap (handleRouteChange st) r =
             map_option (\<lambda>pg. snd (page_create (next_node (win st))
                (if cur = r then page_destroy pg else pg))) (heap st r)"
      by (simp add: hf(1) pg cu)
    have hc: "cur \<noteq> r \<longrightarrow>
               heap (handleRouteChange st) cur = map_option page_destroy (heap st cur)
               \<and> map_option page_released (heap (handleRouteChange st) cur) = Some True"
      using hf(8) [of cur] by (simp add: cu pc)
    show "trace (handleRouteChange st) =
           trace st @
           [EvDestroy cur, EvClear, EvCreate r (next_node (win st)),
            EvAppend (next_node (win st)), EvTitle (title (win (handleRouteChange st))),
            EvScrollTo 0 0]
         \<and> container (handleRouteChange st) = [next_node (win st)]
         \<and> currentPage (handleRouteChange st) = Some r
         \<and> heap (handleRouteChange st) r =
             map_option (\<lambda>pg. snd (page_create (next_node (win st))
                (if cur = r then page_destroy pg else pg))) (heap st r)
         \<and> (cur \<noteq> r \<longrightarrow>
               heap (handleRouteChange st) cur = map_option page_destroy (heap st cur)
               \<and> map_option page_released (heap (handleRouteChange st) cur) = Some True)"
      using t hr hc hf(2,3) by blast
  qed
  show ?thesis using a l m b s inv_lifecycle [OF i] by blast
qed

subsection \<open>Evaluation of the concrete inputs\<close>

lemmas router_eval =
  main_ops_def home_only_ops_def spaced_ops_def slashes_ops_def replaced_ops_def
  example_window_def slashes_window_def example_pushed_pathname_def trim_def
  encode_spaces_def directory_def
  Router_new_def addRoute_def start_def navigate_def
  popstate_def pushState_def setupNavHighlighting_def handleRouteChange_def find_page_def
  destroy_current_def mount_def click_def Let_def
  HomePage_create_def HomePage_destroy_def HomePage_getTitle_def initScene_def
  initSceneControls_def call_def NotFoundPage_create_def NotFoundPage_destroy_def
  NotFoundPage_getTitle_def

lemma example_pushed_pathname_eval:
  "example_pushed_pathname cur ''/'' = ''/''"
  "example_pushed_pathname cur ''/about'' = ''/about''"
  "example_pushed_pathname cur ''/login'' = ''/login''"
  "example_pushed_pathname cur ''/about us'' = ''/about%20us''"
  "example_pushed_pathname cur ''//example.com/x'' = ''/x''"
  by (simp_all add: example_pushed_pathname_def trim_def encode_spaces_def)

lemma main_state:
  "currentPage (run main_ops (Router_new [] example_window)) = Some 0"
  "find_page (run main_ops (Router_new [] example_window)) = Some 0"
  "routes (run main_ops (Router_new [] example_window)) ''/'' = Some 0"
  "routes (run main_ops (Router_new [] example_window)) ''*'' = Some 1"
  "routes (run main_ops (Router_new [] example_window)) ''/about'' = None"
  "container (run main_ops (Router_new [] example_window)) = [0]"
  "next_node (win (run main_ops (Router_new [] example_window))) = 1"
  "location_pathname (win (run main_ops (Router_new [] example_window))) = ''/''"
  "location_origin (win (run main_ops (Router_new [] example_window))) = ''https://example.com''"
  "title (win (run main_ops (Router_new [] example_window))) = ''3D Experience | Home''"
  "pushed_pathname (win (run main_ops (Router_new [] example_window))) = example_pushed_pathname"
  "trace (run main_ops (Router_new [] example_window)) =
     [EvConstruct HomePage_class 0, EvConstruct NotFoundPage_class 1, EvClear,
      EvCreate 0 0, EvAppend 0, EvTitle ''3D Experience | Home'', EvScrollTo 0 0]"
  by (simp_all add: router_eval)

lemma replaced_state:
  "currentPage (run replaced_ops (Router_new [7, 8] example_window)) = Some 0"
  "find_page (run replaced_ops (Router_new [7, 8] example_window)) = Some 2"
  "container (run replaced_ops (Router_new [7, 8] example_window)) = [0]"
  "next_ref (run replaced_ops (Router_new [7, 8] example_window)) = 3"
  "next_node (win (run replaced_ops (Router_new [7, 8] example_window))) = 1"
  "trace (run replaced_ops (Router_new [7, 8] example_window)) =
     [EvConstruct HomePage_class 0, EvConstruct NotFoundPage_class 1, EvClear,
      EvCreate 0 0, EvAppend 0, EvTitle ''3D Experience | Home'', EvScrollTo 0 0,
      EvConstruct NotFoundPage_class 2]"
  "title (win (handleRouteChange (run replaced_ops (Router_new [7, 8] example_window))))
     = ''404 - Page Not Found''"
  "disposals (run replaced_ops (Router_new [7, 8] example_window)) 0 = 0"
  by (simp_all add: router_eval disposals_def)

theorem router_lifecycle_witness:
  "currentPage (run replaced_ops (Router_new [7, 8] example_window)) = Some 0
   \<and> find_page (run replaced_ops (Router_new [7, 8] example_window)) = Some 2
   \<and> 1 < next_ref (run replaced_ops (Router_new [7, 8] example_window))
   \<and> container (run replaced_ops (Router_new [7, 8] example_window)) = [0]
   \<and> length (mounted (run replaced_ops (Router_new [7, 8] example_window))) \<le> 1
   \<and> mounted (run replaced_ops (Router_new [7, 8] example_window)) = [0]
   \<and> map_option page_released (heap (run replaced_ops (Router_new [7, 8] example_window)) 1)
       = Some True
   \<and> trace (handleRouteChange (run replaced_ops (Router_new [7, 8] example_window))) =
       [EvConstruct HomePage_class 0, EvConstruct NotFoundPage_class 1, EvClear,
        EvCreate 0 0, EvAppend 0, EvTitle ''3D Experience | Home'', EvScrollTo 0 0,
        EvConstruct NotFoundPage_class 2,
        EvDestroy 0, EvClear, EvCreate 2 1, EvAppend 1, EvTitle ''404 - Page Not Found'',
        EvScrollTo 0 0]
   \<and> container (handleRouteChange (run replaced_ops (Router_new [7, 8] example_window))) = [1]
   \<and> map_option page_released
        (heap (handleRouteChange (run replaced_ops (Router_new [7, 8] example_window))) 0)
       = Some True
   \<and> disposals (handleRouteChange (run replaced_ops (Router_new [7, 8] example_window))) 0 = 1"
proof -
  let ?S = "run replaced_ops (Router_new [7, 8] example_window)"
  have d: "disposals (handleRouteChange ?S) 0 = 1"
    by (simp add: router_eval disposals_def)
  have hyp: "currentPage ?S = Some 0 \<and> find_page ?S = Some 2"
    "1 < next_ref ?S \<and> currentPage ?S \<noteq> Some 1" "(0::nat) \<noteq> 2"
    by (simp_all add: replaced_state)
  note t = router_lifecycle [of ?S replaced_ops "[7, 8]" example_window 1 0 2]
  have c1: "length (mounted ?S) \<le> 1"
    using t by blast
  have c6: "mounted ?S = (case currentPage ?S of None \<Rightarrow> [] | Some r \<Rightarrow> [r])"
    using t by blast
  have c2: "map_option page_released (heap ?S 1) = Some True"
    using t hyp by blast
  have c3: "trace (handleRouteChange ?S) =
      trace ?S @
      [EvDestroy 0, EvClear, EvCreate 2 (next_node (win ?S)), EvAppend (next_node (win ?S)),
       EvTitle (title (win (handleRouteChange ?S))), EvScrollTo 0 0]"
    using t hyp by blast
  have c4: "container (handleRouteChange ?S) = [next_node (win ?S)]"
    using t hyp by blast
  have c5: "map_option page_released (heap (handleRouteChange ?S) 0) = Some True"
    using t hyp by blast
  show ?thesis
    using c1 c2 c3 c4 c5 c6 d by (simp add: replaced_state)
qed

subsection \<open>Navigation to registered and unregistered paths\<close>

lemma setupNavHighlighting_fields:
  shows "routes (setupNavHighlighting st) = routes st"
    and "container (setupNavHighlighting st) = container st"
    and "currentPage (setupNavHighlighting st) = currentPage st"
    and "heap (setupNavHighlighting st) = heap st"
    and "next_ref (setupNavHighlighting st) = next_ref st"
    and "trace (setupNavHighlighting st) = trace st"
    and "title (win (setupNavHighlighting st)) = title (win st)"
    and "scroll (win (setupNavHighlighting st)) = scroll (win st)"
    and "next_node (win (setupNavHighlighting st)) = next_node (win st)"
    and "location_pathname (win (setupNavHighlighting st)) = location_pathname (win st)"
  by (simp_all add: setupNavHighlighting_def)

lemma pushState_fields:
  shows "routes (pushState url st) = routes st"
    and "container (pushState url st) = container st"
    and "currentPage (pushState url st) = currentPage st"
    and "heap (pushState url st) = heap st"
    and "next_ref (pushState url st) = next_ref st"
    and "trace (pushState url st) = trace st @ [EvPushState url]"
    and "title (win (pushState url st)) = title (win st)"
    and "scroll (win (pushState url st)) = scroll (win st)"
    and "next_node (win (pushState url st)) = next_node (win st)"
    and "location_pathname (win (pushState url st)) =
           pushed_pathname (win st) (location_pathname (win st)) url"
  by (simp_all add: pushState_def)

lemma resolution_found:
  assumes i: "inv c st" and f: "find_page st = Some r"
  shows "mounted_as r (next_node (win st)) (handleRouteChange st)"
    and "creates (trace (handleRouteChange st)) = creates (trace st) @ [(r, next_node (win st))]"
    and "trace (handleRouteChange st) =
           trace st @ (case currentPage st of None \<Rightarrow> [] | Some cur \<Rightarrow> [EvDestroy cur]) @
           [EvClear, EvCreate r (next_node (win st)), EvAppend (next_node (win st)),
            EvTitle (title (win (handleRouteChange st))), EvScrollTo 0 0]"
    and "heap (handleRouteChange st) r =
           map_option (\<lambda>pg. snd (page_create (next_node (win st))
              (if currentPage st = Some r then page_destroy pg else pg))) (heap st r)"
proof -
  obtain p where "routes st p = Some r" using find_page_routes [OF f] by blast
  then obtain pg where pg: "heap st r = Some pg" using inv_routes_heap [OF i] by blast
  note hf = handleRouteChange_found [OF i f pg]
  show "mounted_as r (next_node (win st)) (handleRouteChange st)"
    by (simp add: mounted_as_def hf)
  show "creates (trace (handleRouteChange st)) = creates (trace st) @ [(r, next_node (win st))]"
    by (cases "currentPage st") (simp_all add: hf(6) creates_append)
  show "trace (handleRouteChange st) =
           trace st @ (case currentPage st of None \<Rightarrow> [] | Some cur \<Rightarrow> [EvDestroy cur]) @
           [EvClear, EvCreate r (next_node (win st)), EvAppend (next_node (win st)),
            EvTitle (title (win (handleRouteChange st))), EvScrollTo 0 0]"
    by (simp add: hf(6,7))
  show "heap (handleRouteChange st) r =
           map_option (\<lambda>pg. snd (page_create (next_node (win st))
              (if currentPage st = Some r then page_destroy pg else pg))) (heap st r)"
    by (simp add: hf(1) pg)
qed

lemma mounted_as_setupNavHighlighting:
  "mounted_as r n (setupNavHighlighting st) = mounted_as r n st"
  by (simp add: mounted_as_def setupNavHighlighting_fields cong: option.case_cong)

lemma find_page_exact:
  "routes st (location_pathname (win st)) = Some r \<Longrightarrow> find_page st = Some r"
  by (simp add: find_page_def)

lemma find_page_wildcard:
  "routes st (location_pathname (win st)) = None \<Longrightarrow> find_page st = routes st ''*''"
  by (simp add: find_page_def)

lemma at_path_fields:
  shows "routes (at_path p st) = routes st"
    and "container (at_path p st) = container st"
    and "currentPage (at_path p st) = currentPage st"
    and "heap (at_path p st) = heap st"
    and "trace (at_path p st) = trace st"
    and "next_node (win (at_path p st)) = next_node (win st)"
    and "location_pathname (win (at_path p st)) = p"
    and "inv c st \<Longrightarrow> inv c (at_path p st)"
  by (simp_all add: at_path_def inv_win)

lemma popstate_at_path: "popstate p st = handleRouteChange (at_path p st)"
  by (simp add: popstate_def at_path_def)

text \<open>
  Claim C2, amended. Let \<open>p\<close> be a registered path. A resolution at \<open>p\<close> calls \<open>create\<close>
  once, on the page registered for \<open>p\<close>, makes the element returned the only child of the
  container and sets the document title to that page's title. \<open>navigate p\<close> does the same
  if the browser reports \<open>p\<close> itself as the pathname after \<open>pushState\<close>, or if \<open>p\<close> is the
  wildcard and the pathname reported has no route of its own.
\<close>

theorem navigate_mounts_registered:
  assumes "st = run ops (Router_new c w)"
    and "routes st p = Some r"
  shows "mounted_as r (next_node (win st)) (popstate p st)
    \<and> creates (trace (popstate p st)) = creates (trace st) @ [(r, next_node (win st))]
    \<and> heap (popstate p st) r =
         map_option (\<lambda>pg. snd (page_create (next_node (win st))
            (if currentPage st = Some r then page_destroy pg else pg))) (heap st r)
    \<and> (pushed_pathname (win st) (location_pathname (win st)) p = p
         \<or> (p = ''*'' \<and>
             routes st (pushed_pathname (win st) (location_pathname (win st)) p) = None)
        \<longrightarrow>
          mounted_as r (next_node (win st)) (navigate p st)
          \<and> creates (trace (navigate p st)) = creates (trace st) @ [(r, next_node (win st))]
          \<and> heap (navigate p st) r =
               map_option (\<lambda>pg. snd (page_create (next_node (win st))
                  (if currentPage st = Some r then page_destroy pg else pg))) (heap st r))"
proof -
  have i: "inv c st" using assms(1) by (simp add: inv_reachable)
  have i1: "inv c (pushState p st)" by (rule inv_pushState [OF i])
  have i2: "inv c (at_path p st)" by (rule at_path_fields(8) [OF i])
  have f2: "find_page (at_path p st) = Some r"
    using assms(2) by (intro find_page_exact) (simp add: at_path_fields)
  have a: "mounted_as r (next_node (win st)) (popstate p st)"
    using resolution_found(1) [OF i2 f2] by (simp add: popstate_at_path at_path_fields)
  have b: "creates (trace (popstate p st)) = creates (trace st) @ [(r, next_node (win st))]"
    using resolution_found(2) [OF i2 f2] by (simp add: popstate_at_path at_path_fields)
  have e: "heap (popstate p st) r =
         map_option (\<lambda>pg. snd (page_create (next_node (win st))
            (if currentPage st = Some r then page_destroy pg else pg))) (heap st r)"
    using resolution_found(4) [OF i2 f2] by (simp add: popstate_at_path at_path_fields)
  have n: "pushed_pathname (win st) (location_pathname (win st)) p = p
         \<or> (p = ''*'' \<and>
             routes st (pushed_pathname (win st) (location_pathname (win st)) p) = None)
        \<longrightarrow>
          mounted_as r (next_node (win st)) (navigate p st)
          \<and> creates (trace (navigate p st)) = creates (trace st) @ [(r, next_node (win st))]
          \<and> heap (navigate p st) r =
               map_option (\<lambda>pg. snd (page_create (next_node (win st))
                  (if currentPage st = Some r then page_destroy pg else pg))) (heap st r)"
  proof
    assume h: "pushed_pathname (win st) (location_pathname (win st)) p = p
         \<or> (p = ''*'' \<and>
             routes st (pushed_pathname (win st) (location_pathname (win st)) p) = None)"
    have f1: "find_page (pushState p st) = Some r"
      using assms(2) h by (auto simp add: find_page_def pushState_fields)
    have a1: "mounted_as r (next_node (win st)) (navigate p st)"
      using resolution_found(1) [OF i1 f1]
      by (simp add: navigate_def mounted_as_setupNavHighlighting pushState_fields)
    have b1: "creates (trace (navigate p st)) = creates (trace st) @ [(r, next_node (win st))]"
      using resolution_found(2) [OF i1 f1]
      by (simp add: navigate_def setupNavHighlighting_fields pushState_fields creates_append)
    have e1: "heap (navigate p st) r =
               map_option (\<lambda>pg. snd (page_create (next_node (win st))
                  (if currentPage st = Some r then page_destroy pg else pg))) (heap st r)"
      using resolution_found(4) [OF i1 f1]
      by (simp add: navigate_def setupNavHighlighting_fields pushState_fields)
    show "mounted_as r (next_node (win st)) (navigate p st)
          \<and> creates (trace (navigate p st)) = creates (trace st) @ [(r, next_node (win st))]
          \<and> heap (navigate p st) r =
               map_option (\<lambda>pg. snd (page_create (next_node (win st))
                  (if currentPage st = Some r then page_destroy pg else pg))) (heap st r)"
      using a1 b1 e1 by simp
  qed
  show ?thesis using a b e n by blast
qed

lemma spaced_state:
  "routes (run spaced_ops (Router_new [] example_window)) ''/about us'' = Some 0"
  "next_node (win (run spaced_ops (Router_new [] example_window))) = 1"
  "trace (run spaced_ops (Router_new [] example_window)) =
     [EvConstruct HomePage_class 0, EvConstruct NotFoundPage_class 1, EvClear,
      EvCreate 1 0, EvAppend 0, EvTitle ''404 - Page Not Found'', EvScrollTo 0 0]"
  "title (win (popstate ''/about us'' (run spaced_ops (Router_new [] example_window))))
     = ''3D Experience | Home''"
  by (simp_all add: router_eval)

theorem navigate_mounts_registered_witness:
  "routes (run main_ops (Router_new [] example_window)) ''/'' = Some 0
   \<and> pushed_pathname (win (run main_ops (Router_new [] example_window)))
        (location_pathname (win (run main_ops (Router_new [] example_window)))) ''/'' = ''/''
   \<and> mounted_as 0 1 (navigate ''/'' (run main_ops (Router_new [] example_window)))
   \<and> creates (trace (navigate ''/'' (run main_ops (Router_new [] example_window))))
       = [(0, 0), (0, 1)]
   \<and> routes (run spaced_ops (Router_new [] example_window)) ''/about us'' = Some 0
   \<and> mounted_as 0 1 (popstate ''/about us'' (run spaced_ops (Router_new [] example_window)))
   \<and> creates (trace (popstate ''/about us'' (run spaced_ops (Router_new [] example_window))))
       = [(1, 0), (0, 1)]"
proof -
  let ?S = "run main_ops (Router_new [] example_window)"
  let ?T = "run spaced_ops (Router_new [] example_window)"
  have h: "routes ?S ''/'' = Some 0"
    "pushed_pathname (win ?S) (location_pathname (win ?S)) ''/'' = ''/''"
    "routes ?T ''/about us'' = Some 0"
    by (simp_all add: main_state spaced_state example_pushed_pathname_eval)
  note s = navigate_mounts_registered [of ?S main_ops "[]" example_window "''/''" 0, OF refl h(1)]
  note t = navigate_mounts_registered [of ?T spaced_ops "[]" example_window "''/about us''" 0,
      OF refl h(3)]
  have s1: "mounted_as 0 (next_node (win ?S)) (navigate ''/'' ?S)"
    and s2: "creates (trace (navigate ''/'' ?S)) = creates (trace ?S) @ [(0, next_node (win ?S))]"
    using s h(2) by blast+
  have t1: "mounted_as 0 (next_node (win ?T)) (popstate ''/about us'' ?T)"
    and t2: "creates (trace (popstate ''/about us'' ?T))
        = creates (trace ?T) @ [(0, next_node (win ?T))]"
    using t by blast+
  show ?thesis
    using h s1 s2 t1 t2 by (simp add: main_state spaced_state)
qed

text \<open>
  Without that condition the statement fails for \<open>navigate\<close>: a route registered for a path
  with a space is never found, since the browser reports the space as \<open>%20\<close>;
  \<open>navigate\<close> mounts the wildcard page, and \<open>create\<close> is never called on the page
  registered for the path.
\<close>

theorem navigate_registered_counterexample:
  "routes (run spaced_ops (Router_new [] example_window)) ''/about us'' = Some 0
   \<and> \<not> mounted_as 0 (next_node (win (run spaced_ops (Router_new [] example_window))))
         (navigate ''/about us'' (run spaced_ops (Router_new [] example_window)))
   \<and> location_pathname
        (win (navigate ''/about us'' (run spaced_ops (Router_new [] example_window))))
       = ''/about%20us''
   \<and> currentPage (navigate ''/about us'' (run spaced_ops (Router_new [] example_window)))
       = Some 1
   \<and> title (win (navigate ''/about us'' (run spaced_ops (Router_new [] example_window))))
       = ''404 - Page Not Found''
   \<and> creates (trace (navigate ''/about us'' (run spaced_ops (Router_new [] example_window))))
       = [(1, 0), (1, 1)]"
  by (simp add: router_eval mounted_as_def)

text \<open>
  Claim C9, amended. If path \<open>p\<close> resolves to the page that is mounted, a \<open>popstate\<close> at
  \<open>p\<close> calls \<open>destroy\<close> on that page, clears the container and calls \<open>create\<close> on the
  same page again, which yields a fresh element; the page object is the old one with
  \<open>page_destroy\<close> and then \<open>page_create\<close> applied, and nothing is skipped. \<open>navigate p\<close>
  does the same if the browser reports \<open>p\<close> itself as the pathname after \<open>pushState\<close>.
\<close>

theorem renavigate_rebuilds:
  assumes "st = run ops (Router_new c w)"
    and "find_page (at_path p st) = Some r"
    and "currentPage st = Some r"
  shows "trace (popstate p st) =
           trace st @
           [EvDestroy r, EvClear, EvCreate r (next_node (win st)),
            EvAppend (next_node (win st)), EvTitle (title (win (popstate p st))), EvScrollTo 0 0]
    \<and> heap (popstate p st) r =
         map_option (\<lambda>pg. snd (page_create (next_node (win st)) (page_destroy pg))) (heap st r)
    \<and> container (popstate p st) = [next_node (win st)]
    \<and> currentPage (popstate p st) = Some r
    \<and> (pushed_pathname (win st) (location_pathname (win st)) p = p \<longrightarrow>
          trace (navigate p st) =
            trace st @
            [EvPushState p, EvDestroy r, EvClear, EvCreate r (next_node (win st)),
             EvAppend (next_node (win st)), EvTitle (title (win (navigate p st))),
             EvScrollTo 0 0]
          \<and> heap (navigate p st) r =
               map_option (\<lambda>pg. snd (page_create (next_node (win st)) (page_destroy pg)))
                 (heap st r)
          \<and> container (navigate p st) = [next_node (win st)]
          \<and> currentPage (navigate p st) = Some r)"
proof -
  have i: "inv c st" using assms(1) by (simp add: inv_reachable)
  have i1: "inv c (pushState p st)" by (rule inv_pushState [OF i])
  have i2: "inv c (at_path p st)" by (rule at_path_fields(8) [OF i])
  note f2 = assms(2)
  have b: "trace (popstate p st) =
           trace st @
           [EvDestroy r, EvClear, EvCreate r (next_node (win st)),
            EvAppend (next_node (win st)), EvTitle (title (win (popstate p st))), EvScrollTo 0 0]"
    using resolution_found(3) [OF i2 f2] assms(3)
    by (simp add: popstate_at_path at_path_fields)
  have d: "heap (popstate p st) r =
         map_option (\<lambda>pg. snd (page_create (next_node (win st)) (page_destroy pg))) (heap st r)"
    using resolution_found(4) [OF i2 f2] assms(3)
    by (simp add: popstate_at_path at_path_fields)
  have g: "container (popstate p st) = [next_node (win st)]"
    "currentPage (popstate p st) = Some r"
    using resolution_found(1) [OF i2 f2]
    by (simp_all add: popstate_at_path at_path_fields mounted_as_def)
  have n: "pushed_pathname (win st) (location_pathname (win st)) p = p \<longrightarrow>
          trace (navigate p st) =
            trace st @
            [EvPushState p, EvDestroy r, EvClear, EvCreate r (next_node (win st)),
             EvAppend (next_node (win st)), EvTitle (title (win (navigate p st))),
             EvScrollTo 0 0]
          \<and> heap (navigate p st) r =
               map_option (\<lambda>pg. snd (page_create (next_node (win st)) (page_destroy pg)))
                 (heap st r)
          \<and> container (navigate p st) = [next_node (win st)]
          \<and> currentPage (navigate p st) = Some r"
  proof
    assume h: "pushed_pathname (win st) (location_pathname (win st)) p = p"
    have f1: "find_page (pushState p st) = Some r"
      using assms(2) h
      by (simp add: find_page_def pushState_fields at_path_fields cong: option.case_cong)
    have a1: "trace (navigate p st) =
            trace st @
            [EvPushState p, EvDestroy r, EvClear, EvCreate r (next_node (win st)),
             EvAppend (next_node (win st)), EvTitle (title (win (navigate p st))),
             EvScrollTo 0 0]"
      using resolution_found(3) [OF i1 f1] assms(3)
      by (simp add: navigate_def setupNavHighlighting_fields pushState_fields)
    have c1: "heap (navigate p st) r =
               map_option (\<lambda>pg. snd (page_create (next_node (win st)) (page_destroy pg)))
                 (heap st r)"
      using resolution_found(4) [OF i1 f1] assms(3)
      by (simp add: navigate_def setupNavHighlighting_fields pushState_fields)
    have e1: "container (navigate p st) = [next_node (win st)]"
      "currentPage (navigate p st) = Some r"
      using resolution_found(1) [OF i1 f1]
      by (simp_all add: navigate_def setupNavHighlighting_fields pushState_fields mounted_as_def)
    show "trace (navigate p st) =
            trace st @
            [EvPushState p, EvDestroy r, EvClear, EvCreate r (next_node (win st)),
             EvAppend (next_node (win st)), EvTitle (title (win (navigate p st))),
             EvScrollTo 0 0]
          \<and> heap (navigate p st) r =
               map_option (\<lambda>pg. snd (page_create (next_node (win st)) (page_destroy pg)))
                 (heap st r)
          \<and> container (navigate p st) = [next_node (win st)]
          \<and> currentPage (navigate p st) = Some r"
      using a1 c1 e1 by simp
  qed
  show ?thesis using b d g n by blast
qed

lemma main_renavigated:
  "find_page (at_path ''/'' (run main_ops (Router_new [] example_window))) = Some 0"
  "title (win (navigate ''/'' (run main_ops (Router_new [] example_window))))
     = ''3D Experience | Home''"
  "title (win (popstate ''/'' (run main_ops (Router_new [] example_window))))
     = ''3D Experience | Home''"
  "disposals (run main_ops (Router_new [] example_window)) 0 = 0"
  "disposals (navigate ''/'' (run main_ops (Router_new [] example_window))) 0 = 1"
  "disposals (popstate ''/'' (run main_ops (Router_new [] example_window))) 0 = 1"
  by (simp_all add: router_eval at_path_def disposals_def)

theorem renavigate_rebuilds_witness:
  "find_page (at_path ''/'' (run main_ops (Router_new [] example_window))) = Some 0
   \<and> currentPage (run main_ops (Router_new [] example_window)) = Some 0
   \<and> pushed_pathname (win (run main_ops (Router_new [] example_window)))
        (location_pathname (win (run main_ops (Router_new [] example_window)))) ''/'' = ''/''
   \<and> trace (popstate ''/'' (run main_ops (Router_new [] example_window))) =
       [EvConstruct HomePage_class 0, EvConstruct NotFoundPage_class 1, EvClear,
        EvCreate 0 0, EvAppend 0, EvTitle ''3D Experience | Home'', EvScrollTo 0 0,
        EvDestroy 0, EvClear, EvCreate 0 1, EvAppend 1,
        EvTitle ''3D Experience | Home'', EvScrollTo 0 0]
   \<and> trace (navigate ''/'' (run main_ops (Router_new [] example_window))) =
       [EvConstruct HomePage_class 0, EvConstruct NotFoundPage_class 1, EvClear,
        EvCreate 0 0, EvAppend 0, EvTitle ''3D Experience | Home'', EvScrollTo 0 0,
        EvPushState ''/'', EvDestroy 0, EvClear, EvCreate 0 1, EvAppend 1,
        EvTitle ''3D Experience | Home'', EvScrollTo 0 0]
   \<and> container (navigate ''/'' (run main_ops (Router_new [] example_window))) = [1]
   \<and> disposals (run main_ops (Router_new [] example_window)) 0 = 0
   \<and> disposals (navigate ''/'' (run main_ops (Router_new [] example_window))) 0 = 1
   \<and> disposals (popstate ''/'' (run main_ops (Router_new [] example_window))) 0 = 1"
proof -
  let ?S = "run main_ops (Router_new [] example_window)"
  have h: "find_page (at_path ''/'' ?S) = Some 0" "currentPage ?S = Some 0"
    "pushed_pathname (win ?S) (location_pathname (win ?S)) ''/'' = ''/''"
    by (simp_all add: main_state main_renavigated example_pushed_pathname_eval)
  note t = renavigate_rebuilds [of ?S main_ops "[]" example_window "''/''" 0, OF refl h(1,2)]
  have t1: "trace (popstate ''/'' ?S) =
      trace ?S @
      [EvDestroy 0, EvClear, EvCreate 0 (next_node (win ?S)), EvAppend (next_node (win ?S)),
       EvTitle (title (win (popstate ''/'' ?S))), EvScrollTo 0 0]"
    using t by blast
  have t2: "trace (navigate ''/'' ?S) =
      trace ?S @
      [EvPushState ''/'', EvDestroy 0, EvClear, EvCreate 0 (next_node (win ?S)),
       EvAppend (next_node (win ?S)), EvTitle (title (win (navigate ''/'' ?S))),
       EvScrollTo 0 0]"
    and t3: "container (navigate ''/'' ?S) = [next_node (win ?S)]"
    using t h(3) by blast+
  show ?thesis
    using h t1 t2 t3 by (simp add: main_state main_renavigated)
qed

lemma slashes_state:
  "location_pathname (win (run slashes_ops (Router_new [] slashes_window)))
     = ''//example.com/x''"
  "routes (run slashes_ops (Router_new [] slashes_window)) ''//example.com/x'' = Some 0"
  "find_page (run slashes_ops (Router_new [] slashes_window)) = Some 0"
  "currentPage (run slashes_ops (Router_new [] slashes_window)) = Some 0"
  by (simp_all add: router_eval)

text \<open>
  Without that condition the statement fails for \<open>navigate\<close>. In the document loaded from
  https://example.com//example.com/x the page registered for the pathname //example.com/x is
  mounted. \<open>navigate\<close> with that pathname makes the browser report /x, which has no route:
  the mounted page is destroyed and the wildcard page is created in its place.
\<close>

theorem renavigate_counterexample:
  "location_pathname (win (run slashes_ops (Router_new [] slashes_window)))
     = ''//example.com/x''
   \<and> find_page (run slashes_ops (Router_new [] slashes_window)) = Some 0
   \<and> currentPage (run slashes_ops (Router_new [] slashes_window)) = Some 0
   \<and> location_pathname
        (win (navigate ''//example.com/x'' (run slashes_ops (Router_new [] slashes_window))))
       = ''/x''
   \<and> trace (navigate ''//example.com/x'' (run slashes_ops (Router_new [] slashes_window)))
       = trace (run slashes_ops (Router_new [] slashes_window)) @
         [EvPushState ''//example.com/x'', EvDestroy 0, EvClear, EvCreate 1 1, EvAppend 1,
          EvTitle ''404 - Page Not Found'', EvScrollTo 0 0]
   \<and> currentPage
        (navigate ''//example.com/x'' (run slashes_ops (Router_new [] slashes_window)))
       = Some 1
   \<and> creates
        (trace (navigate ''//example.com/x'' (run slashes_ops (Router_new [] slashes_window))))
       = [(0, 0), (1, 1)]"
  by (simp add: router_eval)

text \<open>
  Claim C3. Let \<open>q\<close> be a pathname without a route of its own. If the wildcard is
  registered, a resolution at \<open>q\<close>, by \<open>popstate\<close> or by a \<open>navigate\<close> that leads to
  \<open>q\<close>, mounts the wildcard page. If it is not, the resolution changes nothing: after
  \<open>popstate\<close> the state is the one the browser left, and after \<open>navigate\<close> the current
  page, the container, every page object, the title and the scroll position are as before,
  and the only call made is \<open>pushState\<close>.
\<close>

theorem unregistered_path:
  assumes "st = run ops (Router_new c w)"
    and "routes st q = None"
  shows "(routes st ''*'' = Some r \<longrightarrow>
            mounted_as r (next_node (win st)) (popstate q st)
            \<and> (pushed_pathname (win st) (location_pathname (win st)) p = q \<longrightarrow>
                 mounted_as r (next_node (win st)) (navigate p st)))
    \<and> (routes st ''*'' = None \<longrightarrow>
            popstate q st = at_path q st
            \<and> (pushed_pathname (win st) (location_pathname (win st)) p = q \<longrightarrow>
                 navigate p st = setupNavHighlighting (pushState p st)
                 \<and> currentPage (navigate p st) = currentPage st
                 \<and> container (navigate p st) = container st
                 \<and> heap (navigate p st) = heap st
                 \<and> title (win (navigate p st)) = title (win st)
                 \<and> scroll (win (navigate p st)) = scroll (win st)
                 \<and> trace (navigate p st) = trace st @ [EvPushState p]))"
proof -
  have i: "inv c st" using assms(1) by (simp add: inv_reachable)
  have i1: "inv c (pushState p st)" by (rule inv_pushState [OF i])
  have i2: "inv c (at_path q st)" by (rule at_path_fields(8) [OF i])
  have f2: "find_page (at_path q st) = routes st ''*''"
    using assms(2) find_page_wildcard [of "at_path q st"] by (simp add: at_path_fields)
  have f1: "pushed_pathname (win st) (location_pathname (win st)) p = q \<Longrightarrow>
      find_page (pushState p st) = routes st ''*''"
    using assms(2) find_page_wildcard [of "pushState p st"] by (simp add: pushState_fields)
  have a: "routes st ''*'' = Some r \<Longrightarrow> mounted_as r (next_node (win st)) (popstate q st)"
    using resolution_found(1) [OF i2, of r] f2 by (simp add: popstate_at_path at_path_fields)
  have b: "routes st ''*'' = Some r \<Longrightarrow>
      pushed_pathname (win st) (location_pathname (win st)) p = q \<Longrightarrow>
      mounted_as r (next_node (win st)) (navigate p st)"
    using resolution_found(1) [OF i1, of r] f1
    by (simp add: navigate_def mounted_as_setupNavHighlighting pushState_fields)
  have c: "routes st ''*'' = None \<Longrightarrow> popstate q st = at_path q st"
    using f2 by (simp add: popstate_at_path handleRouteChange_def)
  have d: "routes st ''*'' = None \<Longrightarrow>
      pushed_pathname (win st) (location_pathname (win st)) p = q \<Longrightarrow>
      navigate p st = setupNavHighlighting (pushState p st)"
    using f1 by (simp add: navigate_def handleRouteChange_def)
  show ?thesis
    using a b c d by (simp add: setupNavHighlighting_fields pushState_fields)
qed

theorem unregistered_path_witness:
  "routes (run main_ops (Router_new [] example_window)) ''/about'' = None
   \<and> routes (run main_ops (Router_new [] example_window)) ''*'' = Some 1
   \<and> mounted_as 1 1 (navigate ''/about'' (run main_ops (Router_new [] example_window)))
   \<and> routes (run home_only_ops (Router_new [] example_window))
        ''/about'' = None
   \<and> routes (run home_only_ops (Router_new [] example_window))
        ''*'' = None
   \<and> currentPage
        (navigate ''/about''
           (run home_only_ops (Router_new [] example_window)))
       = Some 0
   \<and> trace
        (navigate ''/about''
           (run home_only_ops (Router_new [] example_window)))
       = [EvConstruct HomePage_class 0, EvClear, EvCreate 0 0, EvAppend 0,
          EvTitle ''3D Experience | Home'', EvScrollTo 0 0, EvPushState ''/about'']"
proof -
  have h: "routes (run home_only_ops (Router_new [] example_window))
        ''/about'' = None"
    "routes (run home_only_ops (Router_new [] example_window))
        ''*'' = None"
    "currentPage (run home_only_ops (Router_new [] example_window))
       = Some 0"
    "pushed_pathname (win (run home_only_ops (Router_new [] example_window)))
       = example_pushed_pathname"
    "trace (run home_only_ops (Router_new [] example_window))
       = [EvConstruct HomePage_class 0, EvClear, EvCreate 0 0, EvAppend 0,
          EvTitle ''3D Experience | Home'', EvScrollTo 0 0]"
    by (simp_all add: router_eval)
  show ?thesis
    using unregistered_path [of "run main_ops (Router_new [] example_window)" main_ops
        "[]" example_window "''/about''" 1 "''/about''"]
      unregistered_path [of "run home_only_ops
          (Router_new [] example_window)" home_only_ops
        "[]" example_window "''/about''" 1 "''/about''"]
    by (simp add: main_state h example_pushed_pathname_eval setupNavHighlighting_fields
          pushState_fields)
qed

subsection \<open>Registration\<close>

subsection \<open>Registration\<close>

text \<open>
  Claim C6. In every reachable state, registering \<open>F1\<close> and then \<open>F2\<close> for the same path
  gives the same route table, path by path the same page object, as registering \<open>F2\<close>
  alone. Each registration constructs its page at once: the constructor call is the next
  entry of the trace, also for the page that is replaced.
\<close>

theorem addRoute_replaces:
  assumes "st = run ops (Router_new c w)"
  shows "route_table (addRoute p F2 (addRoute p F1 st)) = route_table (addRoute p F2 st)
    \<and> route_table (addRoute p F2 st) p = Some (new_page F2)
    \<and> trace (addRoute p F2 st) = trace st @ [EvConstruct F2 (next_ref st)]
    \<and> trace (addRoute p F2 (addRoute p F1 st)) =
         trace st @ [EvConstruct F1 (next_ref st), EvConstruct F2 (Suc (next_ref st))]"
proof -
  have i: "inv c st" using assms by (simp add: inv_reachable)
  have "route_table (addRoute p F2 (addRoute p F1 st)) x = route_table (addRoute p F2 st) x"
    for x
  proof (cases "x = p")
    case True
    then show ?thesis by (simp add: route_table_def addRoute_def)
  next
    case False
    show ?thesis
    proof (cases "routes st x")
      case None
      then show ?thesis using False by (simp add: route_table_def addRoute_def)
    next
      case (Some y)
      then have "y < next_ref st" using inv_routes_lt [OF i] by blast
      then show ?thesis using False Some by (simp add: route_table_def addRoute_def)
    qed
  qed
  then have "route_table (addRoute p F2 (addRoute p F1 st)) = route_table (addRoute p F2 st)"
    by (intro ext)
  then show ?thesis by (simp add: route_table_def addRoute_def)
qed

theorem addRoute_replaces_witness:
  "route_table (addRoute ''/'' NotFoundPage_class
       (addRoute ''/'' HomePage_class (run main_ops (Router_new [] example_window))))
    = route_table (addRoute ''/'' NotFoundPage_class
       (run main_ops (Router_new [] example_window)))
   \<and> route_table (addRoute ''/'' NotFoundPage_class
       (run main_ops (Router_new [] example_window))) ''/''
      = Some (NotFound \<lparr> nf_element = None \<rparr>)"
  using addRoute_replaces [of "run main_ops (Router_new [] example_window)" main_ops "[]"
      example_window "''/''" NotFoundPage_class HomePage_class]
  by simp

subsection \<open>Click interception\<close>

lemma click_left_alone:
  "\<not> prefix (location_origin (win st)) (anchor_href a) \<or> truthy (dataset_external a) \<Longrightarrow>
     click (Some a) st = (False, st)"
  by (auto simp add: click_def)

lemma click_taken_over:
  "prefix (location_origin (win st)) (anchor_href a) \<Longrightarrow> \<not> truthy (dataset_external a) \<Longrightarrow>
     click (Some a) st = (True, navigate (anchor_pathname a) st)"
  by (simp add: click_def)

text \<open>
  Claim C4 says that a click on a cross-origin link is left to the browser. The listener
  tests whether \<open>href\<close> begins with the document's origin. At a link to the host
  example.com.evil.io in a document of origin https://example.com the test succeeds, though
  the origins differ: the listener prevents the default, pushes the link's path and the
  router replaces the mounted page.
\<close>

theorem cross_origin_click_intercepted:
  "anchor_origin near_origin_link
     \<noteq> location_origin (win (run main_ops (Router_new [] example_window)))
   \<and> fst (click (Some near_origin_link) (run main_ops (Router_new [] example_window)))
   \<and> trace (snd (click (Some near_origin_link) (run main_ops (Router_new [] example_window))))
      = trace (run main_ops (Router_new [] example_window)) @
        [EvPushState ''/login'', EvDestroy 0, EvClear, EvCreate 1 1, EvAppend 1,
         EvTitle ''404 - Page Not Found'', EvScrollTo 0 0]
   \<and> currentPage
        (snd (click (Some near_origin_link) (run main_ops (Router_new [] example_window))))
      = Some 1"
  by (simp add: router_eval near_origin_link_def)

text \<open>
  Claim C5 says that a click on a same-origin link without the marker is taken over by the
  router. At a link to the document's own origin whose address carries a user name,
  \<open>href\<close> does not begin with the origin: the listener does not prevent the default, and
  the browser loads the page anew.
\<close>

theorem same_origin_click_not_intercepted:
  "anchor_origin credentials_link
     = location_origin (win (run main_ops (Router_new [] example_window)))
   \<and> dataset_external credentials_link = None
   \<and> click (Some credentials_link) (run main_ops (Router_new [] example_window))
      = (False, run main_ops (Router_new [] example_window))"
  by (simp add: main_state click_def credentials_link_def)

end
